theory Spec2Isabelle
  imports Main "HOL-Library.Sublist" "HOL-Library.Char_ord" "HOL-Library.List_Lexorder"
begin

section \<open>The backup script \<open>drive-backup.py\<close> as state-passing functions\<close>

text \<open>
  The script drives external programs (rclone, mysqldump, gzip, tar) and a scratch
  directory. The embedding makes both explicit:
  \<^item> a \<open>world\<close> holds what the environment answers: the exit code and captured
    streams of every external command (by its argument vector), which paths exist,
    the effective user id, the run's timestamp and the JSON decoder;
  \<^item> a \<open>state\<close> holds what the script has done: whether the scratch directory
    exists, the lines given to \<open>log\<close>, the lines printed directly, and the ordered
    trace of external effects (processes run or spawned, directory created or removed).
  Every function of the source that can raise returns \<open>exn + 'a\<close> next to the new state.

  Scope: a command that is started yields an exit code (the binaries are installed),
  captured error text is already decoded, and the local file operations on the scratch
  directory succeed. What a command answers depends on its argument vector only; the
  remote store is not part of the state (a model of it, taken from the spec, serves the
  statement about a run on a store with twenty directories). Interrupts, which
  \<open>except Exception\<close> does not catch, are left out, and so is the wall-clock prefix of a
  log line.
\<close>

subsection \<open>Data\<close>

record proc_result =
  returncode :: int
  stdout :: string
  stderr :: string

datatype event =
    Run "string list"
  | Popen "string list"
  | Makedirs string
  | Rmtree string

datatype level = INFO | WARN | ERROR

datatype json =
    JNull
  | JBool bool
  | JNumber int
  | JString string
  | JArray "json list"
  | JObject "(string \<times> json) list"

datatype exn =
    Exception string
  | JSONDecodeError string
  | KeyError string
  | TypeError string
  | AttributeError string

record state =
  temp_exists :: bool
  logged :: "(level \<times> string) list"
  console :: "string list"
  trace :: "event list"

record world =
  timestamp :: string
  geteuid :: nat
  path_exists :: "string \<Rightarrow> bool"
  proc :: "string list \<Rightarrow> proc_result"
  json_loads :: "string \<Rightarrow> exn + json"

text \<open>A process starts with nothing logged, printed or run; the scratch directory may
  be left over from an earlier run.\<close>

definition initial_state :: "bool \<Rightarrow> state" where
  "initial_state b = \<lparr>temp_exists = b, logged = [], console = [], trace = []\<rparr>"

subsection \<open>Configuration (lines 9 to 36)\<close>

definition RCLONE_REMOTE :: string where
  "RCLONE_REMOTE = ''gdrive''"

definition BASE_REMOTE_PATH :: string where
  "BASE_REMOTE_PATH = ''backups/automated_server_backups''"

definition MAX_BACKUPS :: nat where
  "MAX_BACKUPS = 14"

definition TEMP_DIR :: string where
  "TEMP_DIR = ''/root/drive-backup-temp-path''"

definition LOG_FILE_PATH :: "world \<Rightarrow> string" where
  "LOG_FILE_PATH w = TEMP_DIR @ ''/'' @ ''backup_log_'' @ timestamp w @ ''.txt''"

definition CURRENT_BACKUP_REMOTE_DIR :: "world \<Rightarrow> string" where
  "CURRENT_BACKUP_REMOTE_DIR w = BASE_REMOTE_PATH @ ''/backup_'' @ timestamp w"

definition DB_USER :: string where
  "DB_USER = ''prestashop''"

definition DB_NAME :: string where
  "DB_NAME = ''prestashop''"

definition BACKUP_TARGETS :: "(string \<times> string) list" where
  "BACKUP_TARGETS =
    [(''apache2_config'', ''/etc/apache2''),
     (''letsencrypt_config'', ''/etc/letsencrypt''),
     (''wireguard_data'', ''/var/lib/docker/volumes/wg-easy_etc_wireguard/_data/''),
     (''wireguard_compose'', ''/root/wg-easy''),
     (''website_html'', ''/var/www/html''),
     (''terraria_server'', ''/home/amp/.ampdata/instances/Terraria_Vanilla_02_202601/Terraria''),
     (''minecraft_server'', ''/home/amp/.ampdata/instances/Cobblemon_1_21_101/Minecraft''),
     (''ufw_etc'', ''/etc/ufw''),
     (''ufw_defaults'', ''/etc/default/ufw''),
     (''drive_backup_script'', ''/root/drive-backup.py''),
     (''php_config'', ''/etc/php/'')]"

subsection \<open>Text helpers of the host language\<close>

text \<open>\<open>sep.join(xs)\<close>, \<open>str(n)\<close> for a length, \<open>path.lstrip("/")\<close> and \<open>str(e)\<close>.\<close>

fun join :: "string \<Rightarrow> string list \<Rightarrow> string" where
  "join sep [] = []"
| "join sep [x] = x"
| "join sep (x # y # ys) = x @ sep @ join sep (y # ys)"

definition digit_char :: "nat \<Rightarrow> char" where
  "digit_char d = char_of (48 + d)"

function str_nat :: "nat \<Rightarrow> string" where
  "str_nat n = (if n < 10 then [digit_char n] else str_nat (n div 10) @ [digit_char (n mod 10)])"
  by pat_completeness auto
termination
  by (relation "measure id") auto

declare str_nat.simps [simp del]

definition lstrip_slash :: "string \<Rightarrow> string" where
  "lstrip_slash p = dropWhile (\<lambda>c. c = CHR ''/'') p"

fun exn_text :: "exn \<Rightarrow> string" where
  "exn_text (Exception m) = m"
| "exn_text (JSONDecodeError m) = m"
| "exn_text (KeyError k) = [CHR 39] @ k @ [CHR 39]"
| "exn_text (TypeError m) = m"
| "exn_text (AttributeError m) = m"

subsection \<open>\<open>ensure_temp_dir\<close>, \<open>log\<close>, \<open>run_rclone_cmd\<close> (lines 38 to 59)\<close>

definition ensure_temp_dir :: "state \<Rightarrow> state" where
  "ensure_temp_dir s =
     (if \<not> temp_exists s
      then s\<lparr>temp_exists := True, trace := trace s @ [Makedirs TEMP_DIR]\<rparr>
      else s)"

definition log :: "string \<Rightarrow> level \<Rightarrow> state \<Rightarrow> state" where
  "log message lvl s =
     (let s1 = ensure_temp_dir s
      in s1\<lparr>logged := logged s1 @ [(lvl, message)]\<rparr>)"

definition run_rclone_cmd :: "world \<Rightarrow> string list \<Rightarrow> bool \<Rightarrow> state \<Rightarrow> (exn + string) \<times> state" where
  "run_rclone_cmd w args check s =
     (let cmd = ''rclone'' # args;
          result = proc w cmd;
          s1 = s\<lparr>trace := trace s @ [Run cmd]\<rparr>
      in if returncode result \<noteq> 0 then
           (let s2 = log (''Rclone command failed: '' @ join '' '' cmd) ERROR s1;
                s3 = log (''Rclone Stderr: '' @ stderr result) ERROR s2
            in if check then (Inl (Exception (''Rclone failed: '' @ stderr result)), s3)
               else (Inr (stdout result), s3))
         else (Inr (stdout result), s1))"

subsection \<open>\<open>backup_database_stream\<close> (lines 61 to 110)\<close>

text \<open>\<open>Popen\<close> starts a process; its \<open>proc_result\<close> is what \<open>communicate\<close> and
  \<open>returncode\<close> give once it has ended.\<close>

definition popen :: "world \<Rightarrow> string list \<Rightarrow> state \<Rightarrow> proc_result \<times> state" where
  "popen w cmd s = (proc w cmd, s\<lparr>trace := trace s @ [Popen cmd]\<rparr>)"

definition db_remote_dest :: "world \<Rightarrow> string" where
  "db_remote_dest w = RCLONE_REMOTE @ '':'' @ CURRENT_BACKUP_REMOTE_DIR w @ ''/'' @ ''database.sql.gz''"

definition dump_cmd :: "string list" where
  "dump_cmd = [''mysqldump'', ''-u'', DB_USER, DB_NAME, ''--single-transaction'', ''--quick'']"

definition gzip_cmd :: "string list" where
  "gzip_cmd = [''gzip'', ''-c'']"

definition db_rcat_cmd :: "world \<Rightarrow> string list" where
  "db_rcat_cmd w = [''rclone'', ''rcat'', db_remote_dest w, ''--stats'', ''5s'']"

definition backup_database_stream :: "world \<Rightarrow> state \<Rightarrow> (exn + unit) \<times> state" where
  "backup_database_stream w s =
     (let s1 = log (''Starting Database Stream to: '' @ db_remote_dest w) INFO s;
          (p1_dump, s2) = popen w dump_cmd s1;
          (p2_gzip, s3) = popen w gzip_cmd s2;
          (p3_rclone, s4) = popen w (db_rcat_cmd w) s3
      in if returncode p3_rclone \<noteq> 0 then
           (Inl (Exception (''Rclone DB Upload Failed: '' @ stderr p3_rclone)), s4)
         else if returncode p1_dump \<noteq> 0 then
           (Inl (Exception (''Mysqldump Failed: '' @ stderr p1_dump)), s4)
         else (Inr (), log ''Database stream completed successfully.'' INFO s4))"

subsection \<open>\<open>backup_files_stream\<close> (lines 112 to 174)\<close>

definition files_remote_dest :: "world \<Rightarrow> string" where
  "files_remote_dest w = RCLONE_REMOTE @ '':'' @ CURRENT_BACKUP_REMOTE_DIR w @ ''/'' @ ''files.tar.gz''"

definition files_rcat_cmd :: "world \<Rightarrow> string list" where
  "files_rcat_cmd w = [''rclone'', ''rcat'', files_remote_dest w, ''--stats'', ''10s'']"

definition tar_base_cmd :: "string list" where
  "tar_base_cmd = [''tar'', ''-czf'', ''-'', ''-C'', ''/'']"

text \<open>The loop of lines 123 to 129 over the items of \<open>BACKUP_TARGETS\<close>, carrying
  \<open>tar_cmd\<close>, \<open>valid_targets_count\<close> and the state.\<close>

fun scan_targets ::
  "world \<Rightarrow> (string \<times> string) list \<Rightarrow> string list \<Rightarrow> nat \<Rightarrow> state \<Rightarrow> string list \<times> nat \<times> state" where
  "scan_targets w [] tar_cmd valid_targets_count s = (tar_cmd, valid_targets_count, s)"
| "scan_targets w ((name, path) # rest) tar_cmd valid_targets_count s =
     (if path_exists w path
      then scan_targets w rest (tar_cmd @ [lstrip_slash path]) (valid_targets_count + 1) s
      else scan_targets w rest tar_cmd valid_targets_count (log (''Not Found: '' @ path) WARN s))"

definition backup_files_stream :: "world \<Rightarrow> state \<Rightarrow> (exn + unit) \<times> state" where
  "backup_files_stream w s =
     (let s1 = log (''Starting File Stream to: '' @ files_remote_dest w) INFO s;
          (tar_cmd, valid_targets_count, s2) = scan_targets w BACKUP_TARGETS tar_base_cmd 0 s1
      in if valid_targets_count = 0 then
           (Inr (), log ''No valid targets found to backup! Aborting file stream.'' ERROR s2)
         else
           (let (p1_tar, s3) = popen w tar_cmd s2;
                (p2_rclone, s4) = popen w (files_rcat_cmd w) s3
            in if returncode p2_rclone \<noteq> 0 then
                 (Inl (Exception ''File stream upload failed''),
                  log (''Rclone File Upload Failed: '' @ stderr p2_rclone) ERROR s4)
               else if returncode p1_tar > 1 then
                 (Inl (Exception ''Tar compression failed''),
                  log (''Tar Fatal Error: '' @ stderr p1_tar) ERROR s4)
               else
                 (let s5 = (if returncode p1_tar = 1
                            then log ''Tar warning (files changed during read), continuing...'' WARN s4
                            else s4)
                  in (Inr (), log ''File stream completed successfully.'' INFO s5))))"

subsection \<open>\<open>manage_retention\<close> (lines 176 to 199)\<close>

text \<open>What the host language does with a decoded JSON value: iterating it,
  \<open>d['Name']\<close>, and \<open>.startswith('backup_')\<close> on the result. A decoded object holds
  each key once, so \<open>map_of\<close> reads it.\<close>

fun type_name :: "json \<Rightarrow> string" where
  "type_name JNull = ''NoneType''"
| "type_name (JBool b) = ''bool''"
| "type_name (JNumber n) = ''int''"
| "type_name (JString t) = ''str''"
| "type_name (JArray xs) = ''list''"
| "type_name (JObject kvs) = ''dict''"

fun iter_json :: "json \<Rightarrow> exn + json list" where
  "iter_json (JArray xs) = Inr xs"
| "iter_json (JObject kvs) = Inr (map (\<lambda>kv. JString (fst kv)) kvs)"
| "iter_json (JString t) = Inr (map (\<lambda>c. JString [c]) t)"
| "iter_json v = Inl (TypeError ([CHR 39] @ type_name v @ [CHR 39] @ '' object is not iterable''))"

fun subscript_Name :: "json \<Rightarrow> exn + json" where
  "subscript_Name (JObject kvs) =
     (case map_of kvs ''Name'' of None \<Rightarrow> Inl (KeyError ''Name'') | Some v \<Rightarrow> Inr v)"
| "subscript_Name (JArray xs) = Inl (TypeError ''list indices must be integers or slices, not str'')"
| "subscript_Name (JString t) = Inl (TypeError (''string indices must be integers, not ''
                                                @ [CHR 39] @ ''str'' @ [CHR 39]))"
| "subscript_Name v = Inl (TypeError ([CHR 39] @ type_name v @ [CHR 39] @ '' object is not subscriptable''))"

definition startswith :: "string \<Rightarrow> string \<Rightarrow> bool" where
  "startswith t p = prefix p t"

fun is_backup_dir :: "json \<Rightarrow> exn + bool" where
  "is_backup_dir d =
     (case subscript_Name d of
        Inl e \<Rightarrow> Inl e
      | Inr (JString n) \<Rightarrow> Inr (startswith n ''backup_'')
      | Inr v \<Rightarrow> Inl (AttributeError ([CHR 39] @ type_name v @ [CHR 39] @ '' object has no attribute ''
                         @ [CHR 39] @ ''startswith'' @ [CHR 39])))"

text \<open>The comprehension of line 185: the first entry that raises ends it.\<close>

fun select_backup_dirs :: "json list \<Rightarrow> exn + json list" where
  "select_backup_dirs [] = Inr []"
| "select_backup_dirs (d # ds) =
     (case is_backup_dir d of
        Inl e \<Rightarrow> Inl e
      | Inr b \<Rightarrow>
          (case select_backup_dirs ds of
             Inl e \<Rightarrow> Inl e
           | Inr r \<Rightarrow> Inr (if b then d # r else r)))"

text \<open>\<open>x['Name']\<close> on an entry the comprehension kept: a string by then.\<close>

definition name_of :: "json \<Rightarrow> string" where
  "name_of d = (case subscript_Name d of Inr (JString n) \<Rightarrow> n | _ \<Rightarrow> [])"

definition lsjson_args :: "string list" where
  "lsjson_args = [''lsjson'', RCLONE_REMOTE @ '':'' @ BASE_REMOTE_PATH, ''--dirs-only'']"

definition purge_args :: "string \<Rightarrow> string list" where
  "purge_args folder_name = [''purge'', RCLONE_REMOTE @ '':'' @ BASE_REMOTE_PATH @ ''/'' @ folder_name]"

text \<open>The loop of lines 194 to 197; \<open>run_rclone_cmd\<close> is called with its default
  \<open>check=True\<close>.\<close>

fun purge_loop :: "world \<Rightarrow> json list \<Rightarrow> state \<Rightarrow> (exn + unit) \<times> state" where
  "purge_loop w [] s = (Inr (), s)"
| "purge_loop w (item # rest) s =
     (let folder_name = name_of item;
          s1 = log (''Purging old backup folder: '' @ folder_name) INFO s
      in case run_rclone_cmd w (purge_args folder_name) True s1 of
           (Inl e, s2) \<Rightarrow> (Inl e, s2)
         | (Inr out, s2) \<Rightarrow> purge_loop w rest s2)"

definition manage_retention :: "world \<Rightarrow> state \<Rightarrow> (exn + unit) \<times> state" where
  "manage_retention w s =
     (let s1 = log ''Checking retention policy...'' INFO s
      in case run_rclone_cmd w lsjson_args True s1 of
           (Inl e, s2) \<Rightarrow> (Inl e, s2)
         | (Inr ls_out, s2) \<Rightarrow>
             (case json_loads w ls_out of
                Inl e \<Rightarrow> (Inl e, s2)
              | Inr dirs \<Rightarrow>
                  (case iter_json dirs of
                     Inl e \<Rightarrow> (Inl e, s2)
                   | Inr ds \<Rightarrow>
                       (case select_backup_dirs ds of
                          Inl e \<Rightarrow> (Inl e, s2)
                        | Inr sel \<Rightarrow>
                            (let backup_dirs = sort_key name_of sel;
                                 s3 = log (''Found '' @ str_nat (length backup_dirs) @ '' backup folders.'') INFO s2
                             in if length backup_dirs > MAX_BACKUPS then
                                  (let to_delete = take (length backup_dirs - MAX_BACKUPS) backup_dirs;
                                       s4 = log (''Retention exceeded. Deleting '' @ str_nat (length to_delete)
                                                 @ '' old folders.'') INFO s3
                                   in purge_loop w to_delete s4)
                                else (Inr (), log ''Retention limit not reached.'' INFO s3))))))"

subsection \<open>\<open>perform_backup\<close> and the entry point (lines 201 to 234)\<close>

definition mkdir_args :: "world \<Rightarrow> string list" where
  "mkdir_args w = [''mkdir'', RCLONE_REMOTE @ '':'' @ CURRENT_BACKUP_REMOTE_DIR w]"

definition log_copy_cmd :: "world \<Rightarrow> string list" where
  "log_copy_cmd w = [''rclone'', ''copy'', LOG_FILE_PATH w, RCLONE_REMOTE @ '':'' @ CURRENT_BACKUP_REMOTE_DIR w]"

text \<open>The body of the \<open>try\<close> (lines 206 to 214): the first step that raises ends it.\<close>

definition try_body :: "world \<Rightarrow> state \<Rightarrow> (exn + unit) \<times> state" where
  "try_body w s =
     (case run_rclone_cmd w (mkdir_args w) False s of
        (Inl e, s1) \<Rightarrow> (Inl e, s1)
      | (Inr out, s1) \<Rightarrow>
          (case backup_database_stream w s1 of
             (Inl e, s2) \<Rightarrow> (Inl e, s2)
           | (Inr u, s2) \<Rightarrow>
               (case backup_files_stream w s2 of
                  (Inl e, s3) \<Rightarrow> (Inl e, s3)
                | (Inr u, s3) \<Rightarrow> manage_retention w s3)))"

text \<open>The \<open>finally\<close> block (lines 219 to 228).\<close>

definition finally_block :: "world \<Rightarrow> state \<Rightarrow> state" where
  "finally_block w s =
     (let s1 = log ''Backup finished. Uploading logs and cleaning up.'' INFO s;
          s2 = s1\<lparr>trace := trace s1 @ [Run (log_copy_cmd w)]\<rparr>
      in if temp_exists s2
         then s2\<lparr>temp_exists := False, trace := trace s2 @ [Rmtree TEMP_DIR]\<rparr>
         else s2)"

definition perform_backup :: "world \<Rightarrow> state \<Rightarrow> state" where
  "perform_backup w s =
     (let s0 = ensure_temp_dir s;
          s1 = log (''Backup job started. ID: '' @ timestamp w) INFO s0;
          (r, s2) = try_body w s1;
          s3 = (case r of
                  Inl e \<Rightarrow> log (''Backup failed: '' @ exn_text e) ERROR s2
                | Inr u \<Rightarrow> s2)
      in finally_block w s3)"

text \<open>The script run as a program: the exit status and the final state.\<close>

definition main :: "world \<Rightarrow> state \<Rightarrow> int \<times> state" where
  "main w s =
     (if geteuid w \<noteq> 0
      then (1, s\<lparr>console := console s @ [''Error: Must run as root.'']\<rparr>)
      else (0, perform_backup w s))"

subsection \<open>Notions used in the statements\<close>

text \<open>The configured paths that exist and those that do not, in configuration order;
  the archive command the loop of lines 123 to 129 builds from them; and what a call
  adds to the log and to the trace.\<close>

definition existing_targets :: "world \<Rightarrow> string list" where
  "existing_targets w = filter (path_exists w) (map snd BACKUP_TARGETS)"

definition missing_targets :: "world \<Rightarrow> string list" where
  "missing_targets w = filter (\<lambda>p. \<not> path_exists w p) (map snd BACKUP_TARGETS)"

definition tar_cmd_of :: "world \<Rightarrow> string list" where
  "tar_cmd_of w = tar_base_cmd @ map lstrip_slash (existing_targets w)"

definition new_entries :: "state \<Rightarrow> state \<Rightarrow> (level \<times> string) list" where
  "new_entries s s' = drop (length (logged s)) (logged s')"

definition new_events :: "state \<Rightarrow> state \<Rightarrow> event list" where
  "new_events s s' = drop (length (trace s)) (trace s')"

text \<open>For the retention pass: an entry on which \<open>d['Name']\<close> is a string; the two
  rclone commands it runs; a listing that succeeds and decodes to an array \<open>ds\<close> of such
  entries; the sorted names that match the naming convention (and the entries that carry
  them, as \<open>backup_dirs\<close> holds them after line 186); how many of them are beyond
  \<open>MAX_BACKUPS\<close> and which ones are selected; and, of a list of names, those up to and
  including the first whose purge exits nonzero.\<close>

definition has_name :: "json \<Rightarrow> bool" where
  "has_name d = (case subscript_Name d of Inr (JString n) \<Rightarrow> True | _ \<Rightarrow> False)"

definition lsjson_cmd :: "string list" where
  "lsjson_cmd = ''rclone'' # lsjson_args"

definition purge_cmd :: "string \<Rightarrow> string list" where
  "purge_cmd n = ''rclone'' # purge_args n"

definition purge_ok :: "world \<Rightarrow> string \<Rightarrow> bool" where
  "purge_ok w n = (returncode (proc w (purge_cmd n)) = 0)"

definition listing_ok :: "world \<Rightarrow> json list \<Rightarrow> bool" where
  "listing_ok w ds =
     (returncode (proc w lsjson_cmd) = 0
      \<and> json_loads w (stdout (proc w lsjson_cmd)) = Inr (JArray ds)
      \<and> list_all has_name ds)"

definition backup_names :: "json list \<Rightarrow> string list" where
  "backup_names ds = sort (filter (\<lambda>n. startswith n ''backup_'') (map name_of ds))"

definition sorted_backup_dirs :: "json list \<Rightarrow> json list" where
  "sorted_backup_dirs ds = sort_key name_of (filter (\<lambda>d. startswith (name_of d) ''backup_'') ds)"

definition excess :: "json list \<Rightarrow> nat" where
  "excess ds = length (backup_names ds) - MAX_BACKUPS"

definition selected :: "json list \<Rightarrow> string list" where
  "selected ds = take (excess ds) (backup_names ds)"

definition attempted :: "world \<Rightarrow> string list \<Rightarrow> string list" where
  "attempted w ns = takeWhile (purge_ok w) ns @ take 1 (dropWhile (purge_ok w) ns)"

fun is_purge :: "event \<Rightarrow> bool" where
  "is_purge (Run cmd) = (take 2 cmd = [''rclone'', ''purge''])"
| "is_purge e = False"

text \<open>For a whole run: the state in which the \<open>try\<close> block starts, what the block ends
  with (\<open>Inl e\<close> when the \<open>except\<close> clause runs), the command that creates the run's
  remote directory, and the name of that directory under the base path.\<close>

definition start_state :: "world \<Rightarrow> state \<Rightarrow> state" where
  "start_state w s = log (''Backup job started. ID: '' @ timestamp w) INFO (ensure_temp_dir s)"

definition run_result :: "world \<Rightarrow> state \<Rightarrow> exn + unit" where
  "run_result w s = fst (try_body w (start_state w s))"

definition mkdir_cmd :: "world \<Rightarrow> string list" where
  "mkdir_cmd w = ''rclone'' # mkdir_args w"

definition own_dir :: "world \<Rightarrow> string" where
  "own_dir w = ''backup_'' @ timestamp w"

text \<open>The lines a retention pass logs when its listing decodes to \<open>ds\<close> and every purge
  it runs succeeds.\<close>

definition retention_log :: "json list \<Rightarrow> (level \<times> string) list" where
  "retention_log ds =
     [(INFO, ''Checking retention policy...''),
      (INFO, ''Found '' @ str_nat (length (backup_names ds)) @ '' backup folders.'')] @
     (if MAX_BACKUPS < length (backup_names ds)
      then (INFO, ''Retention exceeded. Deleting '' @ str_nat (excess ds) @ '' old folders.'')
           # map (\<lambda>n. (INFO, ''Purging old backup folder: '' @ n)) (selected ds)
      else [(INFO, ''Retention limit not reached.'')])"

text \<open>The state in which the database dump job is called, and the two error lines
  \<open>run_rclone_cmd\<close> logs when the directory creation exits nonzero.\<close>

definition db_start_state :: "world \<Rightarrow> state \<Rightarrow> state" where
  "db_start_state w s = snd (run_rclone_cmd w (mkdir_args w) False (start_state w s))"

definition mkdir_log :: "world \<Rightarrow> (level \<times> string) list" where
  "mkdir_log w =
     (if returncode (proc w (mkdir_cmd w)) \<noteq> 0
      then [(ERROR, ''Rclone command failed: '' @ join '' '' (mkdir_cmd w)),
            (ERROR, ''Rclone Stderr: '' @ stderr (proc w (mkdir_cmd w)))]
      else [])"

text \<open>
  Modelled from the spec: the remote store of section 6, which the script reaches only
  through rclone. Its state is the list of directory names under the base path. A
  successful create-directory, stream-write or copy into the run's directory makes that
  directory exist (an upload creates the path segments it needs, section 4.5, and
  creating a directory that exists changes nothing); a successful recursive delete of a
  directory removes it; nothing else changes the store. \<open>remote_after\<close> applies a
  sequence of the script's effects to the store, and \<open>run_prefix\<close> is what a run whose
  jobs succeed does before its retention pass lists the store.
\<close>

fun cmd_of :: "event \<Rightarrow> string list" where
  "cmd_of (Run cmd) = cmd"
| "cmd_of (Popen cmd) = cmd"
| "cmd_of e = []"

definition creates_own_dir :: "world \<Rightarrow> event \<Rightarrow> bool" where
  "creates_own_dir w e =
     (e \<in> set [Run (mkdir_cmd w), Popen (db_rcat_cmd w), Popen (files_rcat_cmd w), Run (log_copy_cmd w)]
      \<and> returncode (proc w (cmd_of e)) = 0)"

definition remote_step :: "world \<Rightarrow> string list \<Rightarrow> event \<Rightarrow> string list" where
  "remote_step w dirs e =
     (if creates_own_dir w e
      then (if own_dir w \<in> set dirs then dirs else dirs @ [own_dir w])
      else filter (\<lambda>n. \<not> (e = Run (purge_cmd n) \<and> purge_ok w n)) dirs)"

definition remote_after :: "world \<Rightarrow> string list \<Rightarrow> event list \<Rightarrow> string list" where
  "remote_after w pre es = foldl (remote_step w) pre es"

definition run_prefix :: "world \<Rightarrow> event list" where
  "run_prefix w =
     [Run (mkdir_cmd w), Popen dump_cmd, Popen gzip_cmd, Popen (db_rcat_cmd w),
      Popen (tar_cmd_of w), Popen (files_rcat_cmd w)]"

subsection \<open>Sample environments\<close>

text \<open>Concrete worlds on which the theorems below are exercised. \<open>answers\<close> gives a
  command the result of the first listed prefix of its argument vector, and exit code 0
  with empty streams otherwise.\<close>

definition ok_result :: proc_result where
  "ok_result = \<lparr>returncode = 0, stdout = [], stderr = []\<rparr>"

definition failed :: "int \<Rightarrow> string \<Rightarrow> proc_result" where
  "failed rc err = \<lparr>returncode = rc, stdout = [], stderr = err\<rparr>"

fun answers :: "(string list \<times> proc_result) list \<Rightarrow> string list \<Rightarrow> proc_result" where
  "answers [] cmd = ok_result"
| "answers ((p, r) # rest) cmd = (if prefix p cmd then r else answers rest cmd)"

definition dir_entry :: "string \<Rightarrow> json" where
  "dir_entry n = JObject [(''Path'', JString n), (''Name'', JString n), (''IsDir'', JBool True)]"

definition sample_world ::
  "nat \<Rightarrow> (string list \<times> proc_result) list \<Rightarrow> (string \<Rightarrow> bool) \<Rightarrow> string list \<Rightarrow> world" where
  "sample_world uid rs ex names =
     \<lparr>timestamp = ''20250121_030000'', geteuid = uid, path_exists = ex, proc = answers rs,
      json_loads = (\<lambda>t. Inr (JArray (map dir_entry names)))\<rparr>"

definition names16 :: "string list" where
  "names16 =
    [''backup_20250116_030000'', ''backup_20250103_030000'', ''manual_snapshots'',
     ''backup_20250101_030000'', ''backup_20250102_030000'', ''backup_20250104_030000'',
     ''backup_20250105_030000'', ''backup_20250106_030000'', ''backup_20250107_030000'',
     ''backup_20250108_030000'', ''backup_20250109_030000'', ''backup_20250110_030000'',
     ''backup_20250111_030000'', ''backup_20250112_030000'', ''backup_20250113_030000'',
     ''backup_20250114_030000'', ''backup_20250115_030000'']"

definition names20 :: "string list" where
  "names20 =
    [''backup_20250120_030000'', ''backup_20250119_030000'', ''backup_20250101_030000'',
     ''backup_20250102_030000'', ''backup_20250103_030000'', ''backup_20250104_030000'',
     ''backup_20250105_030000'', ''backup_20250106_030000'', ''backup_20250107_030000'',
     ''backup_20250108_030000'', ''backup_20250109_030000'', ''backup_20250110_030000'',
     ''backup_20250111_030000'', ''backup_20250112_030000'', ''backup_20250113_030000'',
     ''backup_20250114_030000'', ''backup_20250115_030000'', ''backup_20250116_030000'',
     ''backup_20250117_030000'', ''backup_20250118_030000'']"

definition names3 :: "string list" where
  "names3 = [''backup_20250102_030000'', ''old_stuff'', ''backup_20250101_030000'']"

text \<open>Every target exists and every command exits 0. In \<open>fresh_run_world\<close> the twenty
  directories \<open>names20\<close> exist before the run, and the listing given to the retention pass
  is the store as the steps of the run before that listing leave it.\<close>

definition quiet_world :: world where
  "quiet_world = sample_world 0 [] (\<lambda>p. True) []"

definition fresh_run_world :: world where
  "fresh_run_world =
     sample_world 0 [] (\<lambda>p. True) (remote_after quiet_world names20 (run_prefix quiet_world))"

text \<open>The dump exits 2; and a caller that is not root.\<close>

definition dump_fails_world :: world where
  "dump_fails_world = sample_world 0 [([''mysqldump''], failed 2 ''access denied'')] (\<lambda>p. True) names3"

definition not_root_world :: world where
  "not_root_world = sample_world 1000 [] (\<lambda>p. True) names3"

text \<open>Sixteen matching directories are listed and the purge of the oldest one fails.\<close>

definition purge_fails_world :: world where
  "purge_fails_world =
     sample_world 0 [(purge_cmd ''backup_20250101_030000'', failed 1 ''directory not found'')]
       (\<lambda>p. True) names16"

section \<open>Properties\<close>

subsection \<open>Logging and the scratch directory\<close>

lemma temp_exists_log: "temp_exists (log m l s)"
  by (simp add: log_def ensure_temp_dir_def)

lemma logged_log: "logged (log m l s) = logged s @ [(l, m)]"
  by (simp add: log_def ensure_temp_dir_def)

lemma console_log: "console (log m l s) = console s"
  by (simp add: log_def ensure_temp_dir_def)

lemma trace_log: "trace (log m l s) = trace (ensure_temp_dir s)"
  by (simp add: log_def ensure_temp_dir_def)

lemma log_exists: "temp_exists s \<Longrightarrow> log m l s = s\<lparr>logged := logged s @ [(l, m)]\<rparr>"
  by (simp add: log_def ensure_temp_dir_def)

lemma sample_proc: "proc (sample_world uid rs ex ns) = answers rs"
  by (simp add: sample_world_def)

lemma sample_timestamp: "timestamp (sample_world uid rs ex ns) = ''20250121_030000''"
  by (simp add: sample_world_def)

subsection \<open>The database dump job\<close>

lemma db_cmds_distinct:
  "dump_cmd \<noteq> gzip_cmd" "dump_cmd \<noteq> db_rcat_cmd w" "gzip_cmd \<noteq> db_rcat_cmd w"
  "gzip_cmd \<noteq> dump_cmd" "db_rcat_cmd w \<noteq> dump_cmd" "db_rcat_cmd w \<noteq> gzip_cmd"
  by (simp_all add: dump_cmd_def gzip_cmd_def db_rcat_cmd_def)

text \<open>The job unfolded: three processes are started, then the upload's exit code is
  looked at, then the dump's. The exit code of gzip occurs nowhere.\<close>

lemma db_run:
  "backup_database_stream w s =
    (let s4 = (log (''Starting Database Stream to: '' @ db_remote_dest w) INFO s)
                \<lparr>trace := trace (ensure_temp_dir s) @ [Popen dump_cmd, Popen gzip_cmd, Popen (db_rcat_cmd w)]\<rparr>
     in if returncode (proc w (db_rcat_cmd w)) \<noteq> 0 then
           (Inl (Exception (''Rclone DB Upload Failed: '' @ stderr (proc w (db_rcat_cmd w)))), s4)
        else if returncode (proc w dump_cmd) \<noteq> 0 then
           (Inl (Exception (''Mysqldump Failed: '' @ stderr (proc w dump_cmd))), s4)
        else (Inr (), log ''Database stream completed successfully.'' INFO s4))"
  by (simp add: backup_database_stream_def popen_def Let_def trace_log)

text \<open>
  Claim C2 says that a nonzero exit of the compress stage makes the database dump job
  fail. On the code it does not: with gzip exiting 1 while mysqldump and the upload exit
  0, \<open>backup_database_stream\<close> returns normally and its last log line reports success.
\<close>

theorem gzip_failure_ignored:
  "returncode (proc (sample_world 0 [([''gzip''], failed 1 ''gzip: write error'')] (\<lambda>p. True) names3) gzip_cmd) = 1
   \<and> fst (backup_database_stream
            (sample_world 0 [([''gzip''], failed 1 ''gzip: write error'')] (\<lambda>p. True) names3)
            (initial_state True)) = Inr ()
   \<and> last (logged (snd (backup_database_stream
            (sample_world 0 [([''gzip''], failed 1 ''gzip: write error'')] (\<lambda>p. True) names3)
            (initial_state True))))
       = (INFO, ''Database stream completed successfully.'')"
  by (simp add: db_run sample_proc failed_def ok_result_def dump_cmd_def gzip_cmd_def db_rcat_cmd_def
        logged_log Let_def)

text \<open>
  Claim C10: in the database dump job the upload's exit code is checked first. Whenever
  the upload exits nonzero, the raised failure is built from the upload's error text
  alone, the job logs nothing beyond its starting line, and the whole outcome (result and
  state) is the same whatever the dump process returned.
\<close>

theorem db_upload_failure_masks_dump:
  assumes "returncode (proc w (db_rcat_cmd w)) \<noteq> 0"
  shows "fst (backup_database_stream w s)
           = Inl (Exception (''Rclone DB Upload Failed: '' @ stderr (proc w (db_rcat_cmd w))))
       \<and> logged (snd (backup_database_stream w s))
           = logged s @ [(INFO, ''Starting Database Stream to: '' @ db_remote_dest w)]
       \<and> (\<forall>r. backup_database_stream (w\<lparr>proc := (proc w)(dump_cmd := r)\<rparr>) s = backup_database_stream w s)"
proof -
  have same: "db_rcat_cmd (w\<lparr>proc := p\<rparr>) = db_rcat_cmd w" "db_remote_dest (w\<lparr>proc := p\<rparr>) = db_remote_dest w" for p
    by (simp_all add: db_rcat_cmd_def db_remote_dest_def CURRENT_BACKUP_REMOTE_DIR_def)
  show ?thesis
    using assms by (simp add: db_run Let_def logged_log same db_cmds_distinct)
qed

theorem db_upload_failure_masks_dump_witness:
  "returncode (proc (sample_world 0 [([''rclone'', ''rcat''], failed 1 ''quota exceeded''),
                                      ([''mysqldump''], failed 2 ''access denied'')] (\<lambda>p. True) names3)
                 dump_cmd) = 2
   \<and> fst (backup_database_stream
        (sample_world 0 [([''rclone'', ''rcat''], failed 1 ''quota exceeded''),
                         ([''mysqldump''], failed 2 ''access denied'')] (\<lambda>p. True) names3)
        (initial_state True))
     = Inl (Exception ''Rclone DB Upload Failed: quota exceeded'')"
  using db_upload_failure_masks_dump
          [of "sample_world 0 [([''rclone'', ''rcat''], failed 1 ''quota exceeded''),
                               ([''mysqldump''], failed 2 ''access denied'')] (\<lambda>p. True) names3"
              "initial_state True"]
  by (simp add: sample_proc failed_def ok_result_def dump_cmd_def db_rcat_cmd_def)

subsection \<open>The file archive job\<close>

lemma scan_targets_eq:
  "temp_exists s \<Longrightarrow>
   scan_targets w ts tc n s =
     (tc @ map lstrip_slash (filter (path_exists w) (map snd ts)),
      n + length (filter (path_exists w) (map snd ts)),
      s\<lparr>logged := logged s @ map (\<lambda>p. (WARN, ''Not Found: '' @ p))
                                  (filter (\<lambda>p. \<not> path_exists w p) (map snd ts))\<rparr>)"
proof (induction ts arbitrary: tc n s)
  case Nil
  then show ?case by simp
next
  case (Cons t ts)
  obtain name path where t: "t = (name, path)" by (cases t)
  show ?case
  proof (cases "path_exists w path")
    case True
    with Cons t show ?thesis by simp
  next
    case False
    have "temp_exists (log (''Not Found: '' @ path) WARN s)" by (rule temp_exists_log)
    from Cons.IH[OF this] False t Cons.prems show ?thesis
      by (simp add: log_exists)
  qed
qed

lemma files_run:
  "backup_files_stream w s =
    (let s2 = (log (''Starting File Stream to: '' @ files_remote_dest w) INFO s)
                \<lparr>logged := logged s @ (INFO, ''Starting File Stream to: '' @ files_remote_dest w)
                             # map (\<lambda>p. (WARN, ''Not Found: '' @ p)) (missing_targets w)\<rparr>
     in if existing_targets w = [] then
          (Inr (), log ''No valid targets found to backup! Aborting file stream.'' ERROR s2)
        else
          (let s4 = s2\<lparr>trace := trace s2 @ [Popen (tar_cmd_of w), Popen (files_rcat_cmd w)]\<rparr>
           in if returncode (proc w (files_rcat_cmd w)) \<noteq> 0 then
                (Inl (Exception ''File stream upload failed''),
                 log (''Rclone File Upload Failed: '' @ stderr (proc w (files_rcat_cmd w))) ERROR s4)
              else if returncode (proc w (tar_cmd_of w)) > 1 then
                (Inl (Exception ''Tar compression failed''),
                 log (''Tar Fatal Error: '' @ stderr (proc w (tar_cmd_of w))) ERROR s4)
              else
                (Inr (), log ''File stream completed successfully.'' INFO
                   (if returncode (proc w (tar_cmd_of w)) = 1
                    then log ''Tar warning (files changed during read), continuing...'' WARN s4
                    else s4))))"
proof -
  let ?s1 = "log (''Starting File Stream to: '' @ files_remote_dest w) INFO s"
  have scan: "scan_targets w BACKUP_TARGETS tar_base_cmd 0 ?s1 =
      (tar_cmd_of w, length (existing_targets w),
       ?s1\<lparr>logged := logged s @ (INFO, ''Starting File Stream to: '' @ files_remote_dest w)
                             # map (\<lambda>p. (WARN, ''Not Found: '' @ p)) (missing_targets w)\<rparr>)"
    unfolding tar_cmd_of_def existing_targets_def missing_targets_def
    by (subst scan_targets_eq[OF temp_exists_log]) (simp add: logged_log)
  show ?thesis
    unfolding backup_files_stream_def Let_def scan
    by (simp add: popen_def)
qed


lemma sample_path_exists: "path_exists (sample_world uid rs ex ns) = ex"
  by (simp add: sample_world_def)

lemma new_entries_append: "logged s' = logged s @ es \<Longrightarrow> new_entries s s' = es"
  by (simp add: new_entries_def)

text \<open>
  Claim C8: when none of the configured target paths exists, the file archive job returns
  normally, starts no process and runs no command (its trace is that of its first log
  call), and logs its starting line, one warning per configured path and exactly one
  error-level line.
\<close>

theorem no_targets_soft_skip:
  assumes "\<forall>p \<in> set (map snd BACKUP_TARGETS). \<not> path_exists w p"
  shows "fst (backup_files_stream w s) = Inr ()
       \<and> trace (snd (backup_files_stream w s)) = trace (ensure_temp_dir s)
       \<and> new_entries s (snd (backup_files_stream w s))
           = (INFO, ''Starting File Stream to: '' @ files_remote_dest w)
             # map (\<lambda>p. (WARN, ''Not Found: '' @ p)) (map snd BACKUP_TARGETS)
             @ [(ERROR, ''No valid targets found to backup! Aborting file stream.'')]
       \<and> length (filter (\<lambda>e. fst e = ERROR) (new_entries s (snd (backup_files_stream w s)))) = 1"
proof -
  from assms have none: "existing_targets w = []"
    by (auto simp: existing_targets_def filter_empty_conv)
  from assms have all: "missing_targets w = map snd BACKUP_TARGETS"
    unfolding missing_targets_def by (simp only: filter_id_conv)
  let ?s' = "snd (backup_files_stream w s)"
  have lg: "logged ?s' = logged s @ ((INFO, ''Starting File Stream to: '' @ files_remote_dest w)
             # map (\<lambda>p. (WARN, ''Not Found: '' @ p)) (map snd BACKUP_TARGETS)
             @ [(ERROR, ''No valid targets found to backup! Aborting file stream.'')])"
    by (simp add: files_run none all Let_def logged_log)
  have ne: "new_entries s ?s' = (INFO, ''Starting File Stream to: '' @ files_remote_dest w)
             # map (\<lambda>p. (WARN, ''Not Found: '' @ p)) (map snd BACKUP_TARGETS)
             @ [(ERROR, ''No valid targets found to backup! Aborting file stream.'')]"
    by (rule new_entries_append[OF lg])
  have r: "fst (backup_files_stream w s) = Inr ()"
    by (simp add: files_run none Let_def)
  have tr: "trace ?s' = trace (ensure_temp_dir s)"
    by (simp add: files_run none Let_def log_def ensure_temp_dir_def)
  have cnt: "length (filter (\<lambda>e. fst e = ERROR) (new_entries s ?s')) = 1"
    unfolding ne by (simp add: filter_empty_conv[THEN iffD2])
  from r tr ne cnt show ?thesis by blast
qed

theorem no_targets_soft_skip_witness:
  "list_all (\<lambda>p. \<not> path_exists (sample_world 0 [] (\<lambda>p. False) names3) p) (map snd BACKUP_TARGETS)
   \<and> fst (backup_files_stream (sample_world 0 [] (\<lambda>p. False) names3) (initial_state True)) = Inr ()
   \<and> trace (snd (backup_files_stream (sample_world 0 [] (\<lambda>p. False) names3) (initial_state True))) = []
   \<and> length (filter (\<lambda>e. fst e = ERROR)
        (new_entries (initial_state True)
           (snd (backup_files_stream (sample_world 0 [] (\<lambda>p. False) names3) (initial_state True))))) = 1"
  using no_targets_soft_skip [of "sample_world 0 [] (\<lambda>p. False) names3" "initial_state True"]
  by (simp add: sample_path_exists initial_state_def ensure_temp_dir_def list_all_iff)

lemma tar_cmd_all_exist: "tar_cmd_of (sample_world uid rs (\<lambda>p. True) ns)
   = tar_base_cmd @ map lstrip_slash (map snd BACKUP_TARGETS)"
  by (simp add: tar_cmd_of_def existing_targets_def sample_path_exists)

lemma existing_all_exist: "existing_targets (sample_world uid rs (\<lambda>p. True) ns) = map snd BACKUP_TARGETS"
  by (simp add: existing_targets_def sample_path_exists)

text \<open>
  Claim C7: in the file archive job, when the pipeline runs (some target exists) and the
  upload exits 0, an archive exit code of 1 makes the job return normally with the tar
  warning logged, and an archive exit code of 2 or more makes it raise.
\<close>

theorem tar_exit_code_policy:
  assumes "existing_targets w \<noteq> []"
      and "returncode (proc w (files_rcat_cmd w)) = 0"
  shows "(returncode (proc w (tar_cmd_of w)) = 1 \<longrightarrow>
            fst (backup_files_stream w s) = Inr ()
          \<and> (WARN, ''Tar warning (files changed during read), continuing...'')
              \<in> set (new_entries s (snd (backup_files_stream w s))))
       \<and> (returncode (proc w (tar_cmd_of w)) \<ge> 2 \<longrightarrow>
            fst (backup_files_stream w s) = Inl (Exception ''Tar compression failed''))"
proof (intro conjI impI)
  assume one: "returncode (proc w (tar_cmd_of w)) = 1"
  show "fst (backup_files_stream w s) = Inr ()"
    using assms one by (simp add: files_run Let_def)
  have "logged (snd (backup_files_stream w s)) =
          logged s @ ((INFO, ''Starting File Stream to: '' @ files_remote_dest w)
             # map (\<lambda>p. (WARN, ''Not Found: '' @ p)) (missing_targets w)
             @ [(WARN, ''Tar warning (files changed during read), continuing...''),
                (INFO, ''File stream completed successfully.'')])"
    using assms one by (simp add: files_run Let_def logged_log)
  from new_entries_append[OF this]
  show "(WARN, ''Tar warning (files changed during read), continuing...'')
              \<in> set (new_entries s (snd (backup_files_stream w s)))"
    by simp
next
  assume "2 \<le> returncode (proc w (tar_cmd_of w))"
  then show "fst (backup_files_stream w s) = Inl (Exception ''Tar compression failed'')"
    using assms by (simp add: files_run Let_def)
qed


theorem tar_exit_code_policy_witness:
  "existing_targets (sample_world 0 [([''tar''], failed 1 ''file changed as we read it'')] (\<lambda>p. True) names3) \<noteq> []
   \<and> fst (backup_files_stream
        (sample_world 0 [([''tar''], failed 1 ''file changed as we read it'')] (\<lambda>p. True) names3)
        (initial_state True)) = Inr ()
   \<and> fst (backup_files_stream
        (sample_world 0 [([''tar''], failed 2 ''cannot open'')] (\<lambda>p. True) names3)
        (initial_state True)) = Inl (Exception ''Tar compression failed'')"
  using tar_exit_code_policy
          [of "sample_world 0 [([''tar''], failed 1 ''file changed as we read it'')] (\<lambda>p. True) names3"
              "initial_state True"]
        tar_exit_code_policy
          [of "sample_world 0 [([''tar''], failed 2 ''cannot open'')] (\<lambda>p. True) names3"
              "initial_state True"]
  by (simp add: existing_all_exist tar_cmd_all_exist sample_proc files_rcat_cmd_def tar_base_cmd_def
        failed_def ok_result_def BACKUP_TARGETS_def)

text \<open>The test of line 168 is \<open>returncode > 1\<close>: a negative return code, which is what a
  process killed by a signal has, passes it like 0 does.\<close>

lemma tar_killed_by_signal_passes:
  assumes "existing_targets w \<noteq> []"
      and "returncode (proc w (files_rcat_cmd w)) = 0"
      and "returncode (proc w (tar_cmd_of w)) < 0"
  shows "fst (backup_files_stream w s) = Inr ()"
  using assms by (simp add: files_run Let_def)

subsection \<open>The retention pass\<close>

lemma map_insort_key: "map f (insort_key f x xs) = insort (f x) (map f xs)"
  by (induction xs) simp_all

lemma map_sort_key: "map f (sort_key f xs) = sort (map f xs)"
  by (induction xs) (simp_all add: map_insort_key)

lemma is_backup_dir_has_name:
  "has_name d \<Longrightarrow> is_backup_dir d = Inr (startswith (name_of d) ''backup_'')"
  by (auto simp: has_name_def name_of_def split: sum.splits json.splits)

lemma select_backup_dirs_eq:
  "list_all has_name ds \<Longrightarrow>
   select_backup_dirs ds = Inr (filter (\<lambda>d. startswith (name_of d) ''backup_'') ds)"
  by (induction ds) (simp_all add: is_backup_dir_has_name del: is_backup_dir.simps)

lemma names_of_sorted_selection: "map name_of (sorted_backup_dirs ds) = backup_names ds"
  by (simp add: map_sort_key backup_names_def sorted_backup_dirs_def filter_map comp_def)

lemma run_rclone_ok:
  "returncode (proc w (''rclone'' # args)) = 0 \<Longrightarrow>
   run_rclone_cmd w args chk s = (Inr (stdout (proc w (''rclone'' # args))), s\<lparr>trace := trace s @ [Run (''rclone'' # args)]\<rparr>)"
  by (simp add: run_rclone_cmd_def Let_def)

lemma run_rclone_fail:
  "returncode (proc w (''rclone'' # args)) \<noteq> 0 \<Longrightarrow> temp_exists s \<Longrightarrow>
   run_rclone_cmd w args chk s =
     (if chk then Inl (Exception (''Rclone failed: '' @ stderr (proc w (''rclone'' # args))))
      else Inr (stdout (proc w (''rclone'' # args))),
      s\<lparr>trace := trace s @ [Run (''rclone'' # args)],
        logged := logged s @ [(ERROR, ''Rclone command failed: '' @ join '' '' (''rclone'' # args)),
                              (ERROR, ''Rclone Stderr: '' @ stderr (proc w (''rclone'' # args)))]\<rparr>)"
  by (simp add: run_rclone_cmd_def Let_def log_exists)

lemma purge_loop_ok:
  "temp_exists s \<Longrightarrow> list_all (purge_ok w) (map name_of items) \<Longrightarrow>
   purge_loop w items s =
     (Inr (), s\<lparr>logged := logged s @ map (\<lambda>n. (INFO, ''Purging old backup folder: '' @ n)) (map name_of items),
               trace := trace s @ map (\<lambda>n. Run (purge_cmd n)) (map name_of items)\<rparr>)"
proof (induction items arbitrary: s)
  case Nil
  then show ?case by simp
next
  case (Cons item rest)
  let ?n = "name_of item"
  let ?s1 = "s\<lparr>logged := logged s @ [(INFO, ''Purging old backup folder: '' @ ?n)]\<rparr>"
  let ?s2 = "?s1\<lparr>trace := trace s @ [Run (purge_cmd ?n)]\<rparr>"
  from Cons.prems have rest: "list_all (purge_ok w) (map name_of rest)" and "purge_ok w ?n"
    by simp_all
  then have ok: "returncode (proc w (''rclone'' # purge_args ?n)) = 0"
    by (simp add: purge_ok_def purge_cmd_def)
  have step: "run_rclone_cmd w (purge_args ?n) True ?s1 = (Inr (stdout (proc w (''rclone'' # purge_args ?n))), ?s2)"
    by (simp add: run_rclone_ok[OF ok] purge_cmd_def)
  have "temp_exists ?s2" using Cons.prems by simp
  from Cons.IH[OF this rest] show ?case
    using Cons.prems(1) by (simp add: log_exists run_rclone_ok[OF ok] purge_cmd_def Let_def)
qed

lemma purge_loop_general:
  "temp_exists s \<Longrightarrow>
   fst (purge_loop w items s) =
     (case dropWhile (purge_ok w) (map name_of items) of
        [] \<Rightarrow> Inr ()
      | n # rest \<Rightarrow> Inl (Exception (''Rclone failed: '' @ stderr (proc w (purge_cmd n)))))
   \<and> trace (snd (purge_loop w items s))
       = trace s @ map (\<lambda>n. Run (purge_cmd n)) (attempted w (map name_of items))
   \<and> temp_exists (snd (purge_loop w items s))"
proof (induction items arbitrary: s)
  case Nil
  then show ?case by (simp add: attempted_def)
next
  case (Cons item rest)
  let ?n = "name_of item"
  let ?s1 = "s\<lparr>logged := logged s @ [(INFO, ''Purging old backup folder: '' @ ?n)]\<rparr>"
  have s1: "log (''Purging old backup folder: '' @ ?n) INFO s = ?s1" "temp_exists ?s1"
    using Cons.prems by (simp_all add: log_exists)
  show ?case
  proof (cases "purge_ok w ?n")
    case True
    then have ok: "returncode (proc w (''rclone'' # purge_args ?n)) = 0"
      by (simp add: purge_ok_def purge_cmd_def)
    let ?s2 = "?s1\<lparr>trace := trace s @ [Run (purge_cmd ?n)]\<rparr>"
    have step: "run_rclone_cmd w (purge_args ?n) True ?s1 = (Inr (stdout (proc w (''rclone'' # purge_args ?n))), ?s2)"
      by (simp add: run_rclone_ok[OF ok] purge_cmd_def)
    have "temp_exists ?s2" using Cons.prems by simp
    from Cons.IH[OF this] True show ?thesis
      by (simp add: log_exists[OF Cons.prems] run_rclone_ok[OF ok] purge_cmd_def Let_def attempted_def)
  next
    case False
    then have bad: "returncode (proc w (''rclone'' # purge_args ?n)) \<noteq> 0"
      by (simp add: purge_ok_def purge_cmd_def)
    show ?thesis
      using False Cons.prems
      by (simp add: log_exists[OF Cons.prems] run_rclone_fail[OF bad] Let_def attempted_def purge_cmd_def)
  qed
qed

text \<open>The pass unfolded, for a listing that succeeds and decodes to well-formed entries.\<close>

lemma retention_run:
  assumes "listing_ok w ds"
  shows "manage_retention w s =
    (let s3 = (log ''Checking retention policy...'' INFO s)
                \<lparr>trace := trace (ensure_temp_dir s) @ [Run lsjson_cmd],
                 logged := logged s @ [(INFO, ''Checking retention policy...''),
                    (INFO, ''Found '' @ str_nat (length (backup_names ds)) @ '' backup folders.'')]\<rparr>
     in if length (backup_names ds) > MAX_BACKUPS then
          purge_loop w (take (excess ds) (sorted_backup_dirs ds))
            (s3\<lparr>logged := logged s3 @
                [(INFO, ''Retention exceeded. Deleting '' @ str_nat (excess ds) @ '' old folders.'')]\<rparr>)
        else (Inr (), s3\<lparr>logged := logged s3 @ [(INFO, ''Retention limit not reached.'')]\<rparr>))"
proof -
  from assms have rc: "returncode (proc w (''rclone'' # lsjson_args)) = 0"
    and js: "json_loads w (stdout (proc w (''rclone'' # lsjson_args))) = Inr (JArray ds)"
    and wf: "list_all has_name ds"
    by (simp_all add: listing_ok_def lsjson_cmd_def)
  have len: "length (sorted_backup_dirs ds) = length (backup_names ds)"
    by (simp flip: names_of_sorted_selection)
  have sel: "select_backup_dirs ds = Inr (filter (\<lambda>d. startswith (name_of d) ''backup_'') ds)"
    by (rule select_backup_dirs_eq[OF wf])
  have te: "temp_exists (log m l s')" for m l s' by (rule temp_exists_log)
  show ?thesis
    unfolding manage_retention_def Let_def run_rclone_ok[OF rc]
    by (simp add: js sel len excess_def log_exists te logged_log trace_log lsjson_cmd_def
          flip: sorted_backup_dirs_def)
qed


lemma purge_loop_failure_log:
  "temp_exists s \<Longrightarrow> dropWhile (purge_ok w) (map name_of items) = n # rest \<Longrightarrow>
   logged (snd (purge_loop w items s)) =
     logged s @
     map (\<lambda>m. (INFO, ''Purging old backup folder: '' @ m))
         (takeWhile (purge_ok w) (map name_of items) @ [n]) @
     [(ERROR, ''Rclone command failed: '' @ join '' '' (purge_cmd n)),
      (ERROR, ''Rclone Stderr: '' @ stderr (proc w (purge_cmd n)))]"
proof (induction items arbitrary: s)
  case Nil
  then show ?case by simp
next
  case (Cons item items)
  let ?n = "name_of item"
  show ?case
  proof (cases "purge_ok w ?n")
    case True
    then have ok: "returncode (proc w (''rclone'' # purge_args ?n)) = 0"
      by (simp add: purge_ok_def purge_cmd_def)
    from True Cons.prems have dw: "dropWhile (purge_ok w) (map name_of items) = n # rest"
      by simp
    have "temp_exists (s\<lparr>logged := logged s @ [(INFO, ''Purging old backup folder: '' @ ?n)],
                          trace := trace s @ [Run (purge_cmd ?n)]\<rparr>)"
      using Cons.prems by simp
    from Cons.IH[OF this dw] True show ?thesis
      by (simp add: log_exists[OF Cons.prems(1)] run_rclone_ok[OF ok] purge_cmd_def Let_def)
  next
    case False
    then have bad: "returncode (proc w (''rclone'' # purge_args ?n)) \<noteq> 0"
      by (simp add: purge_ok_def purge_cmd_def)
    from False Cons.prems have "n = ?n" by simp
    then show ?thesis
      using Cons.prems(1) False
      by (simp add: log_exists[OF Cons.prems(1)] run_rclone_fail[OF bad] purge_cmd_def Let_def)
  qed
qed

lemma selected_names: "map name_of (take (excess ds) (sorted_backup_dirs ds)) = selected ds"
  unfolding selected_def names_of_sorted_selection[symmetric] by (rule take_map[symmetric])

lemma selected_nil: "length (backup_names ds) \<le> MAX_BACKUPS \<Longrightarrow> selected ds = []"
  by (simp add: selected_def excess_def)

lemma attempted_all_ok: "list_all (purge_ok w) ns \<Longrightarrow> attempted w ns = ns"
  by (induction ns) (simp_all add: attempted_def)

lemma attempted_first_failure:
  "list_all (purge_ok w) ok \<Longrightarrow> \<not> purge_ok w n \<Longrightarrow> attempted w (ok @ n # rest) = ok @ [n]"
  by (simp add: attempted_def list_all_iff takeWhile_append2 dropWhile_append2)

lemma dropWhile_first_failure:
  "list_all (purge_ok w) ok \<Longrightarrow> \<not> purge_ok w n \<Longrightarrow> dropWhile (purge_ok w) (ok @ n # rest) = n # rest"
  by (simp add: list_all_iff dropWhile_append2)

lemma retention_effects:
  assumes "listing_ok w ds"
  shows "fst (manage_retention w s) =
           (case dropWhile (purge_ok w) (selected ds) of
              [] \<Rightarrow> Inr ()
            | n # rest \<Rightarrow> Inl (Exception (''Rclone failed: '' @ stderr (proc w (purge_cmd n)))))"
    and "trace (snd (manage_retention w s)) =
           trace (ensure_temp_dir s) @ Run lsjson_cmd # map (\<lambda>n. Run (purge_cmd n)) (attempted w (selected ds))"
    and "temp_exists (snd (manage_retention w s))"
proof -
  let ?s3 = "(log ''Checking retention policy...'' INFO s)
                \<lparr>trace := trace (ensure_temp_dir s) @ [Run lsjson_cmd],
                 logged := logged s @ [(INFO, ''Checking retention policy...''),
                    (INFO, ''Found '' @ str_nat (length (backup_names ds)) @ '' backup folders.'')]\<rparr>"
  let ?s4 = "?s3\<lparr>logged := logged ?s3 @
                [(INFO, ''Retention exceeded. Deleting '' @ str_nat (excess ds) @ '' old folders.'')]\<rparr>"
  have te: "temp_exists ?s4" by (simp add: temp_exists_log)
  have tr: "trace ?s4 = trace (ensure_temp_dir s) @ [Run lsjson_cmd]" by simp
  note gen = purge_loop_general[OF te, of w "take (excess ds) (sorted_backup_dirs ds)", unfolded selected_names tr]
  show "fst (manage_retention w s) =
           (case dropWhile (purge_ok w) (selected ds) of
              [] \<Rightarrow> Inr ()
            | n # rest \<Rightarrow> Inl (Exception (''Rclone failed: '' @ stderr (proc w (purge_cmd n)))))"
  proof (cases "MAX_BACKUPS < length (backup_names ds)")
    case True
    then show ?thesis using gen by (simp add: retention_run[OF assms] Let_def)
  next
    case False
    then show ?thesis by (simp add: retention_run[OF assms] Let_def selected_nil)
  qed
  show "trace (snd (manage_retention w s)) =
           trace (ensure_temp_dir s) @ Run lsjson_cmd # map (\<lambda>n. Run (purge_cmd n)) (attempted w (selected ds))"
  proof (cases "MAX_BACKUPS < length (backup_names ds)")
    case True
    then show ?thesis using gen by (simp add: retention_run[OF assms] Let_def)
  next
    case False
    then show ?thesis by (simp add: retention_run[OF assms] Let_def selected_nil attempted_def)
  qed
  show "temp_exists (snd (manage_retention w s))"
  proof (cases "MAX_BACKUPS < length (backup_names ds)")
    case True
    then show ?thesis using gen by (simp add: retention_run[OF assms] Let_def)
  next
    case False
    then show ?thesis by (simp add: retention_run[OF assms] Let_def temp_exists_log)
  qed
qed

lemma retention_failure_log:
  assumes "listing_ok w ds" and "dropWhile (purge_ok w) (selected ds) = n # rest"
  shows "logged (snd (manage_retention w s)) =
     logged s @
     [(INFO, ''Checking retention policy...''),
      (INFO, ''Found '' @ str_nat (length (backup_names ds)) @ '' backup folders.''),
      (INFO, ''Retention exceeded. Deleting '' @ str_nat (excess ds) @ '' old folders.'')] @
     map (\<lambda>m. (INFO, ''Purging old backup folder: '' @ m))
         (takeWhile (purge_ok w) (selected ds) @ [n]) @
     [(ERROR, ''Rclone command failed: '' @ join '' '' (purge_cmd n)),
      (ERROR, ''Rclone Stderr: '' @ stderr (proc w (purge_cmd n)))]"
proof -
  let ?s3 = "(log ''Checking retention policy...'' INFO s)
                \<lparr>trace := trace (ensure_temp_dir s) @ [Run lsjson_cmd],
                 logged := logged s @ [(INFO, ''Checking retention policy...''),
                    (INFO, ''Found '' @ str_nat (length (backup_names ds)) @ '' backup folders.'')]\<rparr>"
  let ?s4 = "?s3\<lparr>logged := logged ?s3 @
                [(INFO, ''Retention exceeded. Deleting '' @ str_nat (excess ds) @ '' old folders.'')]\<rparr>"
  have te: "temp_exists ?s4" by (simp add: temp_exists_log)
  from assms(2) have "selected ds \<noteq> []" by auto
  then have big: "MAX_BACKUPS < length (backup_names ds)"
    by (auto simp: selected_def excess_def)
  have dw: "dropWhile (purge_ok w) (map name_of (take (excess ds) (sorted_backup_dirs ds))) = n # rest"
    unfolding selected_names by (rule assms(2))
  have mr: "manage_retention w s = purge_loop w (take (excess ds) (sorted_backup_dirs ds)) ?s4"
    using big by (simp add: retention_run[OF assms(1)] Let_def)
  show ?thesis
    unfolding mr purge_loop_failure_log[OF te dw] selected_names by simp
qed

lemma new_events_append: "trace s' = trace s @ es \<Longrightarrow> new_events s s' = es"
  by (simp add: new_events_def)

lemma purge_cmd_inj: "purge_cmd a = purge_cmd b \<Longrightarrow> a = b"
  by (simp add: purge_cmd_def purge_args_def)

lemma lsjson_not_purge: "lsjson_cmd \<noteq> purge_cmd n"
  by (simp add: lsjson_cmd_def lsjson_args_def purge_cmd_def purge_args_def)

lemma set_attempted: "set (attempted w ns) \<subseteq> set ns"
  unfolding attempted_def
  by (auto dest: set_takeWhileD in_set_takeD set_dropWhileD)

lemma backup_names_match: "n \<in> set (backup_names ds) \<Longrightarrow> startswith n ''backup_''"
  by (simp add: backup_names_def)

lemma sorted_backup_names: "sorted (backup_names ds)"
  by (simp add: backup_names_def)

lemma name_of_dir_entry: "name_of (dir_entry n) = n"
  by (simp add: name_of_def dir_entry_def)

lemma has_name_dir_entry: "has_name (dir_entry n)"
  by (simp add: has_name_def dir_entry_def)

lemma sample_listing:
  "returncode (answers rs lsjson_cmd) = 0 \<Longrightarrow> listing_ok (sample_world uid rs ex ns) (map dir_entry ns)"
  by (simp add: listing_ok_def sample_world_def list_all_iff has_name_dir_entry)

lemma sample_backup_names:
  "backup_names (map dir_entry ns) = sort (filter (\<lambda>n. startswith n ''backup_'') ns)"
  by (simp add: backup_names_def comp_def name_of_dir_entry)

lemma names16_sorted:
  "backup_names (map dir_entry names16) =
    [''backup_20250101_030000'', ''backup_20250102_030000'', ''backup_20250103_030000'',
     ''backup_20250104_030000'', ''backup_20250105_030000'', ''backup_20250106_030000'',
     ''backup_20250107_030000'', ''backup_20250108_030000'', ''backup_20250109_030000'',
     ''backup_20250110_030000'', ''backup_20250111_030000'', ''backup_20250112_030000'',
     ''backup_20250113_030000'', ''backup_20250114_030000'', ''backup_20250115_030000'',
     ''backup_20250116_030000'']"
  unfolding sample_backup_names by code_simp

lemma names16_selected:
  "selected (map dir_entry names16) = [''backup_20250101_030000'', ''backup_20250102_030000'']"
  by (simp add: selected_def excess_def names16_sorted MAX_BACKUPS_def)

lemma names3_sorted:
  "backup_names (map dir_entry names3) = [''backup_20250101_030000'', ''backup_20250102_030000'']"
  unfolding sample_backup_names by code_simp


text \<open>
  Claim C1: for a listing that succeeds and decodes to entries \<open>ds\<close>, with \<open>K\<close> the
  number of names that match the convention (\<open>length (backup_names ds)\<close>) and \<open>N\<close> the
  limit \<open>MAX_BACKUPS\<close>: if \<open>K \<le> N\<close> the pass runs the listing and nothing else; if
  \<open>K > N\<close> and the purges succeed, it runs, after the listing, exactly one purge for each of
  the \<open>K - N\<close> lexicographically smallest matching names, in ascending order, and \<open>N\<close>
  matching names remain, each at least as large as every purged one. Whatever the purges
  return, a purge is only ever run for a selected name, which matches the convention.
\<close>

theorem retention_deletes_oldest_excess:
  assumes "listing_ok w ds"
  shows "(length (backup_names ds) \<le> MAX_BACKUPS \<longrightarrow>
            new_events (ensure_temp_dir s) (snd (manage_retention w s)) = [Run lsjson_cmd]
          \<and> fst (manage_retention w s) = Inr ())
       \<and> (MAX_BACKUPS < length (backup_names ds) \<and> list_all (purge_ok w) (selected ds) \<longrightarrow>
            new_events (ensure_temp_dir s) (snd (manage_retention w s))
              = Run lsjson_cmd # map (\<lambda>n. Run (purge_cmd n)) (selected ds)
          \<and> fst (manage_retention w s) = Inr ())
       \<and> (MAX_BACKUPS < length (backup_names ds) \<longrightarrow>
            length (selected ds) = length (backup_names ds) - MAX_BACKUPS
          \<and> length (drop (excess ds) (backup_names ds)) = MAX_BACKUPS)
       \<and> selected ds @ drop (excess ds) (backup_names ds) = backup_names ds
       \<and> (\<forall>a \<in> set (selected ds). \<forall>b \<in> set (drop (excess ds) (backup_names ds)). a \<le> b)
       \<and> (\<forall>n. Run (purge_cmd n) \<in> set (new_events (ensure_temp_dir s) (snd (manage_retention w s)))
              \<longrightarrow> n \<in> set (selected ds) \<and> startswith n ''backup_'')"
proof -
  let ?s' = "snd (manage_retention w s)"
  have ev: "new_events (ensure_temp_dir s) ?s'
              = Run lsjson_cmd # map (\<lambda>n. Run (purge_cmd n)) (attempted w (selected ds))"
    by (rule new_events_append) (rule retention_effects(2)[OF assms])
  have res: "fst (manage_retention w s) =
           (case dropWhile (purge_ok w) (selected ds) of
              [] \<Rightarrow> Inr ()
            | n # rest \<Rightarrow> Inl (Exception (''Rclone failed: '' @ stderr (proc w (purge_cmd n)))))"
    by (rule retention_effects(1)[OF assms])
  have c1: "length (backup_names ds) \<le> MAX_BACKUPS \<longrightarrow>
            new_events (ensure_temp_dir s) ?s' = [Run lsjson_cmd] \<and> fst (manage_retention w s) = Inr ()"
    by (simp add: ev res selected_nil attempted_def)
  have c2: "MAX_BACKUPS < length (backup_names ds) \<and> list_all (purge_ok w) (selected ds) \<longrightarrow>
            new_events (ensure_temp_dir s) ?s' = Run lsjson_cmd # map (\<lambda>n. Run (purge_cmd n)) (selected ds)
          \<and> fst (manage_retention w s) = Inr ()"
  proof (intro impI, elim conjE)
    assume ok: "list_all (purge_ok w) (selected ds)"
    then have dw: "dropWhile (purge_ok w) (selected ds) = []"
      by (simp add: list_all_iff)
    show "new_events (ensure_temp_dir s) ?s' = Run lsjson_cmd # map (\<lambda>n. Run (purge_cmd n)) (selected ds)
          \<and> fst (manage_retention w s) = Inr ()"
      unfolding ev res dw attempted_all_ok[OF ok] by simp
  qed
  have c3: "MAX_BACKUPS < length (backup_names ds) \<longrightarrow>
            length (selected ds) = length (backup_names ds) - MAX_BACKUPS
          \<and> length (drop (excess ds) (backup_names ds)) = MAX_BACKUPS"
    by (auto simp: selected_def excess_def)
  have c4: "selected ds @ drop (excess ds) (backup_names ds) = backup_names ds"
    by (simp add: selected_def)
  have "sorted (selected ds @ drop (excess ds) (backup_names ds))"
    unfolding c4 by (rule sorted_backup_names)
  then have c5: "\<forall>a \<in> set (selected ds). \<forall>b \<in> set (drop (excess ds) (backup_names ds)). a \<le> b"
    by (simp add: sorted_append)
  have c6: "\<forall>n. Run (purge_cmd n) \<in> set (new_events (ensure_temp_dir s) ?s')
              \<longrightarrow> n \<in> set (selected ds) \<and> startswith n ''backup_''"
  proof (intro allI impI)
    fix n assume "Run (purge_cmd n) \<in> set (new_events (ensure_temp_dir s) ?s')"
    then have "Run (purge_cmd n) \<in> (\<lambda>n. Run (purge_cmd n)) ` set (attempted w (selected ds))"
      using lsjson_not_purge[of n] by (auto simp: ev)
    then have "n \<in> set (attempted w (selected ds))"
      by (auto dest: purge_cmd_inj)
    then have sel: "n \<in> set (selected ds)"
      using set_attempted by blast
    then have "n \<in> set (backup_names ds)"
      by (auto simp: selected_def dest: in_set_takeD)
    with sel show "n \<in> set (selected ds) \<and> startswith n ''backup_''"
      by (simp add: backup_names_match)
  qed
  from c1 c2 c3 c4 c5 c6 show ?thesis by blast
qed


lemma sample_lsjson_ok: "returncode (answers [] lsjson_cmd) = 0"
  by (simp add: ok_result_def)

lemma sample_purge_ok: "purge_ok (sample_world uid [] ex ns) n"
  by (simp add: purge_ok_def sample_proc ok_result_def)

theorem retention_deletes_oldest_excess_witness:
  "listing_ok (sample_world 0 [] (\<lambda>p. True) names16) (map dir_entry names16)
   \<and> length (backup_names (map dir_entry names16)) = 16
   \<and> list_all (purge_ok (sample_world 0 [] (\<lambda>p. True) names16)) (selected (map dir_entry names16))
   \<and> new_events (ensure_temp_dir (initial_state True))
        (snd (manage_retention (sample_world 0 [] (\<lambda>p. True) names16) (initial_state True)))
       = [Run lsjson_cmd, Run (purge_cmd ''backup_20250101_030000''),
          Run (purge_cmd ''backup_20250102_030000'')]
   \<and> length (backup_names (map dir_entry names3)) = 2
   \<and> new_events (ensure_temp_dir (initial_state True))
        (snd (manage_retention (sample_world 0 [] (\<lambda>p. True) names3) (initial_state True)))
       = [Run lsjson_cmd]"
  using retention_deletes_oldest_excess
          [of "sample_world 0 [] (\<lambda>p. True) names16" "map dir_entry names16" "initial_state True"]
        retention_deletes_oldest_excess
          [of "sample_world 0 [] (\<lambda>p. True) names3" "map dir_entry names3" "initial_state True"]
  by (simp add: sample_listing [OF sample_lsjson_ok] names16_selected names16_sorted names3_sorted
        MAX_BACKUPS_def sample_purge_ok)

lemma purge_fails_listing: "listing_ok purge_fails_world (map dir_entry names16)"
  unfolding purge_fails_world_def
  by (rule sample_listing)
     (simp add: lsjson_cmd_def lsjson_args_def purge_cmd_def purge_args_def ok_result_def)

lemma purge_fails_first: "\<not> purge_ok purge_fails_world ''backup_20250101_030000''"
  by (simp add: purge_ok_def purge_fails_world_def sample_proc failed_def)

lemma purge_fails_stderr:
  "stderr (proc purge_fails_world (purge_cmd ''backup_20250101_030000'')) = ''directory not found''"
  by (simp add: purge_fails_world_def sample_proc failed_def)

text \<open>
  Claim C3 says that a delete call is issued for every selected entry even when the
  deletion of an earlier one failed. On the code it is not: of the two selected entries
  below the first purge fails, and no purge of the second is ever run.
\<close>

theorem second_purge_never_issued:
  "selected (map dir_entry names16) = [''backup_20250101_030000'', ''backup_20250102_030000'']
   \<and> \<not> purge_ok purge_fails_world ''backup_20250101_030000''
   \<and> filter is_purge (trace (snd (manage_retention purge_fails_world (initial_state True))))
       = [Run (purge_cmd ''backup_20250101_030000'')]"
  using purge_fails_first
  by (simp add: retention_effects(2)[OF purge_fails_listing] names16_selected attempted_def
        initial_state_def ensure_temp_dir_def lsjson_cmd_def purge_cmd_def purge_args_def
        lsjson_args_def)

text \<open>
  Claim C3 as amended: the purges run are those of the selected names, in ascending order,
  up to and including the first one that fails, and none after it. That failure is logged
  in two error-level lines (the command that failed and its captured error text), which
  are the last lines the pass logs, and is raised out of the retention pass.
\<close>

theorem retention_stops_at_first_failure:
  assumes "listing_ok w ds"
  shows "new_events (ensure_temp_dir s) (snd (manage_retention w s))
           = Run lsjson_cmd # map (\<lambda>n. Run (purge_cmd n)) (attempted w (selected ds))
       \<and> (\<forall>ok n rest. selected ds = ok @ n # rest \<and> list_all (purge_ok w) ok \<and> \<not> purge_ok w n \<longrightarrow>
              attempted w (selected ds) = ok @ [n]
            \<and> fst (manage_retention w s)
                = Inl (Exception (''Rclone failed: '' @ stderr (proc w (purge_cmd n))))
            \<and> new_entries s (snd (manage_retention w s)) =
                [(INFO, ''Checking retention policy...''),
                 (INFO, ''Found '' @ str_nat (length (backup_names ds)) @ '' backup folders.''),
                 (INFO, ''Retention exceeded. Deleting '' @ str_nat (excess ds) @ '' old folders.'')] @
                map (\<lambda>m. (INFO, ''Purging old backup folder: '' @ m)) (ok @ [n]) @
                [(ERROR, ''Rclone command failed: '' @ join '' '' (purge_cmd n)),
                 (ERROR, ''Rclone Stderr: '' @ stderr (proc w (purge_cmd n)))])"
proof (intro conjI allI impI)
  show "new_events (ensure_temp_dir s) (snd (manage_retention w s))
           = Run lsjson_cmd # map (\<lambda>n. Run (purge_cmd n)) (attempted w (selected ds))"
    by (rule new_events_append) (rule retention_effects(2)[OF assms])
next
  fix ok n rest
  assume h: "selected ds = ok @ n # rest \<and> list_all (purge_ok w) ok \<and> \<not> purge_ok w n"
  then have dw: "dropWhile (purge_ok w) (selected ds) = n # rest"
    by (simp add: dropWhile_first_failure)
  from h have tw: "takeWhile (purge_ok w) (selected ds) = ok"
    by (simp add: list_all_iff takeWhile_append2)
  from h show "attempted w (selected ds) = ok @ [n]"
    by (simp add: attempted_first_failure)
  show "fst (manage_retention w s) = Inl (Exception (''Rclone failed: '' @ stderr (proc w (purge_cmd n))))"
    unfolding retention_effects(1)[OF assms] dw by simp
  show "new_entries s (snd (manage_retention w s)) =
                [(INFO, ''Checking retention policy...''),
                 (INFO, ''Found '' @ str_nat (length (backup_names ds)) @ '' backup folders.''),
                 (INFO, ''Retention exceeded. Deleting '' @ str_nat (excess ds) @ '' old folders.'')] @
                map (\<lambda>m. (INFO, ''Purging old backup folder: '' @ m)) (ok @ [n]) @
                [(ERROR, ''Rclone command failed: '' @ join '' '' (purge_cmd n)),
                 (ERROR, ''Rclone Stderr: '' @ stderr (proc w (purge_cmd n)))]"
    by (rule new_entries_append) (simp only: retention_failure_log[OF assms dw] tw)
qed

theorem retention_stops_at_first_failure_witness:
  "listing_ok purge_fails_world (map dir_entry names16)
   \<and> selected (map dir_entry names16) = [] @ ''backup_20250101_030000'' # [''backup_20250102_030000'']
   \<and> \<not> purge_ok purge_fails_world ''backup_20250101_030000''
   \<and> new_events (ensure_temp_dir (initial_state True))
        (snd (manage_retention purge_fails_world (initial_state True)))
       = [Run lsjson_cmd, Run (purge_cmd ''backup_20250101_030000'')]
   \<and> fst (manage_retention purge_fails_world (initial_state True))
       = Inl (Exception ''Rclone failed: directory not found'')
   \<and> drop 4 (new_entries (initial_state True)
                (snd (manage_retention purge_fails_world (initial_state True))))
       = [(ERROR, ''Rclone command failed: '' @ join '' '' (purge_cmd ''backup_20250101_030000'')),
          (ERROR, ''Rclone Stderr: directory not found'')]"
proof -
  note t = retention_stops_at_first_failure [OF purge_fails_listing, of "initial_state True"]
  have sel: "selected (map dir_entry names16)
               = [] @ ''backup_20250101_030000'' # [''backup_20250102_030000'']"
    by (simp add: names16_selected)
  have h: "selected (map dir_entry names16)
               = [] @ ''backup_20250101_030000'' # [''backup_20250102_030000'']
           \<and> list_all (purge_ok purge_fails_world) []
           \<and> \<not> purge_ok purge_fails_world ''backup_20250101_030000''"
    using sel purge_fails_first by simp
  from t h have "fst (manage_retention purge_fails_world (initial_state True))
       = Inl (Exception (''Rclone failed: ''
               @ stderr (proc purge_fails_world (purge_cmd ''backup_20250101_030000''))))"
    by blast
  then have r: "fst (manage_retention purge_fails_world (initial_state True))
       = Inl (Exception ''Rclone failed: directory not found'')"
    by (simp add: purge_fails_stderr)
  from t have ev: "new_events (ensure_temp_dir (initial_state True))
        (snd (manage_retention purge_fails_world (initial_state True)))
       = [Run lsjson_cmd, Run (purge_cmd ''backup_20250101_030000'')]"
    using purge_fails_first by (simp add: names16_selected attempted_def)
  from t h have "new_entries (initial_state True)
                (snd (manage_retention purge_fails_world (initial_state True))) =
                [(INFO, ''Checking retention policy...''),
                 (INFO, ''Found '' @ str_nat (length (backup_names (map dir_entry names16))) @ '' backup folders.''),
                 (INFO, ''Retention exceeded. Deleting '' @ str_nat (excess (map dir_entry names16)) @ '' old folders.'')] @
                map (\<lambda>m. (INFO, ''Purging old backup folder: '' @ m)) ([] @ [''backup_20250101_030000'']) @
                [(ERROR, ''Rclone command failed: '' @ join '' '' (purge_cmd ''backup_20250101_030000'')),
                 (ERROR, ''Rclone Stderr: '' @ stderr (proc purge_fails_world (purge_cmd ''backup_20250101_030000'')))]"
    by blast
  then have lg: "drop 4 (new_entries (initial_state True)
                (snd (manage_retention purge_fails_world (initial_state True))))
       = [(ERROR, ''Rclone command failed: '' @ join '' '' (purge_cmd ''backup_20250101_030000'')),
          (ERROR, ''Rclone Stderr: directory not found'')]"
    by (simp add: purge_fails_stderr)
  from purge_fails_listing sel purge_fails_first ev r lg show ?thesis by blast
qed

subsection \<open>The orchestrator\<close>

lemma ensure_temp_dir_exists: "temp_exists s \<Longrightarrow> ensure_temp_dir s = s"
  by (simp add: ensure_temp_dir_def)

lemma temp_exists_ensure: "temp_exists (ensure_temp_dir s)"
  by (simp add: ensure_temp_dir_def)

lemma logged_ensure: "logged (ensure_temp_dir s) = logged s"
  by (simp add: ensure_temp_dir_def)

lemma ensure_log: "ensure_temp_dir (log m l s) = log m l s"
  by (rule ensure_temp_dir_exists) (rule temp_exists_log)

lemma finally_block_eq:
  "temp_exists s \<Longrightarrow>
   finally_block w s =
     s\<lparr>logged := logged s @ [(INFO, ''Backup finished. Uploading logs and cleaning up.'')],
       trace := trace s @ [Run (log_copy_cmd w), Rmtree TEMP_DIR],
       temp_exists := False\<rparr>"
  by (simp add: finally_block_def Let_def log_exists)

lemma finally_block_removes: "\<not> temp_exists (finally_block w s)"
  by (simp add: finally_block_def Let_def)

lemma perform_backup_eq:
  "perform_backup w s =
     finally_block w
       (case run_result w s of
          Inl e \<Rightarrow> log (''Backup failed: '' @ exn_text e) ERROR (snd (try_body w (start_state w s)))
        | Inr u \<Rightarrow> snd (try_body w (start_state w s)))"
  unfolding perform_backup_def Let_def case_prod_beta start_state_def run_result_def
  by (rule refl)

lemma start_state_eq:
  "start_state w s =
     (ensure_temp_dir s)\<lparr>logged := logged s @ [(INFO, ''Backup job started. ID: '' @ timestamp w)]\<rparr>"
  by (simp add: start_state_def log_exists[OF temp_exists_ensure] logged_ensure)

lemma db_start_state_eq:
  "db_start_state w s =
     (ensure_temp_dir s)
       \<lparr>logged := logged s @ (INFO, ''Backup job started. ID: '' @ timestamp w) # mkdir_log w,
        trace := trace (ensure_temp_dir s) @ [Run (mkdir_cmd w)]\<rparr>"
proof (cases "returncode (proc w (''rclone'' # mkdir_args w)) = 0")
  case True
  then show ?thesis
    by (simp add: db_start_state_def run_rclone_ok start_state_eq mkdir_log_def mkdir_cmd_def)
next
  case False
  have "temp_exists (start_state w s)" by (simp add: start_state_def temp_exists_log)
  from run_rclone_fail[OF False this] False show ?thesis
    by (simp add: db_start_state_def start_state_eq mkdir_log_def mkdir_cmd_def)
qed

lemma run_rclone_nocheck: "\<exists>out. fst (run_rclone_cmd w args False s) = Inr out"
  by (simp add: run_rclone_cmd_def Let_def)

lemma try_body_eq:
  "try_body w (start_state w s) =
     (case backup_database_stream w (db_start_state w s) of
        (Inl e, s2) \<Rightarrow> (Inl e, s2)
      | (Inr u, s2) \<Rightarrow>
          (case backup_files_stream w s2 of
             (Inl e, s3) \<Rightarrow> (Inl e, s3)
           | (Inr u, s3) \<Rightarrow> manage_retention w s3))"
proof -
  obtain out where "fst (run_rclone_cmd w (mkdir_args w) False (start_state w s)) = Inr out"
    using run_rclone_nocheck by blast
  then have "run_rclone_cmd w (mkdir_args w) False (start_state w s) = (Inr out, db_start_state w s)"
    by (simp add: db_start_state_def prod_eq_iff)
  then show ?thesis by (simp add: try_body_def)
qed

lemma temp_exists_db_start: "temp_exists (db_start_state w s)"
  by (simp add: db_start_state_eq temp_exists_ensure)


lemma finally_block_trace:
  "trace (finally_block w s) = trace (ensure_temp_dir s) @ [Run (log_copy_cmd w), Rmtree TEMP_DIR]"
  by (simp add: finally_block_def Let_def trace_log temp_exists_log)

lemma finally_block_logged:
  "logged (finally_block w s) = logged s @ [(INFO, ''Backup finished. Uploading logs and cleaning up.'')]"
  by (simp add: finally_block_def Let_def logged_log)

lemma db_fail_state:
  assumes "fst (backup_database_stream w s) = Inl e" and "temp_exists s"
  shows "snd (backup_database_stream w s) =
           s\<lparr>logged := logged s @ [(INFO, ''Starting Database Stream to: '' @ db_remote_dest w)],
             trace := trace s @ [Popen dump_cmd, Popen gzip_cmd, Popen (db_rcat_cmd w)]\<rparr>"
  using assms
  by (simp add: db_run Let_def log_exists ensure_temp_dir_exists split: if_splits)

lemma run_result_db_fail:
  "fst (backup_database_stream w (db_start_state w s)) = Inl e \<Longrightarrow> run_result w s = Inl e"
  by (simp add: run_result_def try_body_eq case_prod_beta split: sum.splits)

lemma try_state_db_fail:
  "fst (backup_database_stream w (db_start_state w s)) = Inl e \<Longrightarrow>
   snd (try_body w (start_state w s)) = snd (backup_database_stream w (db_start_state w s))"
  by (simp add: try_body_eq case_prod_beta split: sum.splits)

text \<open>
  Claim C9: whatever the environment answers and whether or not the job sequence raised,
  the scratch directory does not exist when \<open>perform_backup\<close> returns; the last two
  effects of a run are the upload of the log and the removal of the directory.
\<close>

theorem workspace_removed_after_run:
  "\<not> temp_exists (perform_backup w s)
   \<and> (\<exists>before. trace (perform_backup w s) = before @ [Run (log_copy_cmd w), Rmtree TEMP_DIR])"
  by (simp add: perform_backup_eq finally_block_removes finally_block_trace)

text \<open>
  Claim C4: when the database dump job raises, the \<open>try\<close> block ends with that failure.
  The external effects of the whole run are then exactly: the remote directory creation,
  the three processes of the dump pipeline, the upload of the log, and the removal of the
  scratch directory. No archive process, no archive upload, no listing and no purge
  occurs, and the log holds no line of the file archive job or of the retention manager.
\<close>

theorem dump_failure_skips_later_jobs:
  assumes "fst (backup_database_stream w (db_start_state w s)) = Inl e"
  shows "run_result w s = Inl e
       \<and> trace (perform_backup w s) =
           trace (ensure_temp_dir s) @
           [Run (mkdir_cmd w), Popen dump_cmd, Popen gzip_cmd, Popen (db_rcat_cmd w),
            Run (log_copy_cmd w), Rmtree TEMP_DIR]
       \<and> new_entries s (perform_backup w s) =
           (INFO, ''Backup job started. ID: '' @ timestamp w) # mkdir_log w @
           [(INFO, ''Starting Database Stream to: '' @ db_remote_dest w),
            (ERROR, ''Backup failed: '' @ exn_text e),
            (INFO, ''Backup finished. Uploading logs and cleaning up.'')]
       \<and> \<not> temp_exists (perform_backup w s)"
proof -
  have rr: "run_result w s = Inl e" by (rule run_result_db_fail[OF assms])
  let ?s2 = "snd (backup_database_stream w (db_start_state w s))"
  have s2: "?s2 = (db_start_state w s)
           \<lparr>logged := logged (db_start_state w s) @ [(INFO, ''Starting Database Stream to: '' @ db_remote_dest w)],
             trace := trace (db_start_state w s) @ [Popen dump_cmd, Popen gzip_cmd, Popen (db_rcat_cmd w)]\<rparr>"
    by (rule db_fail_state[OF assms temp_exists_db_start])
  have te: "temp_exists ?s2" unfolding s2 by (simp add: temp_exists_db_start)
  have trd: "trace (db_start_state w s) = trace (ensure_temp_dir s) @ [Run (mkdir_cmd w)]"
    and lgd: "logged (db_start_state w s)
                = logged s @ (INFO, ''Backup job started. ID: '' @ timestamp w) # mkdir_log w"
    by (simp_all add: db_start_state_eq)
  have tr2: "trace ?s2 = trace (ensure_temp_dir s) @
               [Run (mkdir_cmd w), Popen dump_cmd, Popen gzip_cmd, Popen (db_rcat_cmd w)]"
    and lg2: "logged ?s2 = logged s @ (INFO, ''Backup job started. ID: '' @ timestamp w) # mkdir_log w
               @ [(INFO, ''Starting Database Stream to: '' @ db_remote_dest w)]"
    unfolding s2 by (simp_all add: trd lgd)
  have pb: "perform_backup w s = finally_block w (log (''Backup failed: '' @ exn_text e) ERROR ?s2)"
    by (simp add: perform_backup_eq rr try_state_db_fail[OF assms])
  have tr: "trace (perform_backup w s) =
           trace (ensure_temp_dir s) @
           [Run (mkdir_cmd w), Popen dump_cmd, Popen gzip_cmd, Popen (db_rcat_cmd w),
            Run (log_copy_cmd w), Rmtree TEMP_DIR]"
    by (simp add: pb finally_block_trace ensure_log trace_log ensure_temp_dir_exists[OF te] tr2)
  have lg: "logged (perform_backup w s) = logged s @
           ((INFO, ''Backup job started. ID: '' @ timestamp w) # mkdir_log w @
           [(INFO, ''Starting Database Stream to: '' @ db_remote_dest w),
            (ERROR, ''Backup failed: '' @ exn_text e),
            (INFO, ''Backup finished. Uploading logs and cleaning up.'')])"
    by (simp add: pb finally_block_logged logged_log lg2)
  have rm: "\<not> temp_exists (perform_backup w s)"
    unfolding pb by (rule finally_block_removes)
  from rr tr new_entries_append[OF lg] rm show ?thesis by blast
qed

text \<open>
  Claim C6: run as root, the script ends with status 0 after \<open>perform_backup\<close>, also when
  the job sequence raised (the failure is logged and swallowed); run by another user it
  prints the error, ends with status 1, and has neither created the scratch directory,
  nor logged, nor run anything.
\<close>

theorem exit_status:
  "(geteuid w = 0 \<longrightarrow> fst (main w s) = 0 \<and> snd (main w s) = perform_backup w s)
   \<and> (geteuid w = 0 \<and> run_result w s = Inl e \<longrightarrow>
        fst (main w s) = 0
      \<and> (ERROR, ''Backup failed: '' @ exn_text e) \<in> set (logged (snd (main w s))))
   \<and> (geteuid w \<noteq> 0 \<longrightarrow>
        fst (main w s) = 1
      \<and> temp_exists (snd (main w s)) = temp_exists s
      \<and> trace (snd (main w s)) = trace s
      \<and> logged (snd (main w s)) = logged s
      \<and> console (snd (main w s)) = console s @ [''Error: Must run as root.''])"
  by (simp add: main_def perform_backup_eq finally_block_logged logged_log)


lemma dump_fails_db_result:
  "fst (backup_database_stream dump_fails_world s) = Inl (Exception ''Mysqldump Failed: access denied'')"
  by (simp add: db_run Let_def dump_fails_world_def sample_proc failed_def ok_result_def
        dump_cmd_def db_rcat_cmd_def)

theorem dump_failure_skips_later_jobs_witness:
  "fst (backup_database_stream dump_fails_world (db_start_state dump_fails_world (initial_state False)))
     = Inl (Exception ''Mysqldump Failed: access denied'')
   \<and> trace (perform_backup dump_fails_world (initial_state False))
       = [Makedirs TEMP_DIR, Run (mkdir_cmd dump_fails_world), Popen dump_cmd, Popen gzip_cmd,
          Popen (db_rcat_cmd dump_fails_world), Run (log_copy_cmd dump_fails_world), Rmtree TEMP_DIR]
   \<and> \<not> temp_exists (perform_backup dump_fails_world (initial_state False))"
  using dump_failure_skips_later_jobs [OF dump_fails_db_result, of "initial_state False"]
        dump_fails_db_result
  by (simp add: initial_state_def ensure_temp_dir_def)

theorem exit_status_witness:
  "geteuid not_root_world = 1000
   \<and> fst (main not_root_world (initial_state False)) = 1
   \<and> temp_exists (snd (main not_root_world (initial_state False))) = False
   \<and> trace (snd (main not_root_world (initial_state False))) = []
   \<and> geteuid dump_fails_world = 0
   \<and> run_result dump_fails_world (initial_state False) = Inl (Exception ''Mysqldump Failed: access denied'')
   \<and> fst (main dump_fails_world (initial_state False)) = 0"
  using exit_status [of not_root_world "initial_state False"]
        exit_status [of dump_fails_world "initial_state False" "Exception ''Mysqldump Failed: access denied''"]
        run_result_db_fail [OF dump_fails_db_result, of "initial_state False"]
  by (simp add: not_root_world_def dump_fails_world_def sample_world_def initial_state_def)

text \<open>A run in which every step succeeds.\<close>

lemma db_ok_state:
  assumes "returncode (proc w (db_rcat_cmd w)) = 0" and "returncode (proc w dump_cmd) = 0"
      and "temp_exists s"
  shows "backup_database_stream w s =
     (Inr (), s\<lparr>logged := logged s @ [(INFO, ''Starting Database Stream to: '' @ db_remote_dest w),
                                      (INFO, ''Database stream completed successfully.'')],
               trace := trace s @ [Popen dump_cmd, Popen gzip_cmd, Popen (db_rcat_cmd w)]\<rparr>)"
  using assms by (simp add: db_run Let_def log_exists ensure_temp_dir_exists)

lemma files_ok_state:
  assumes "missing_targets w = []" and "existing_targets w \<noteq> []"
      and "returncode (proc w (files_rcat_cmd w)) = 0" and "returncode (proc w (tar_cmd_of w)) = 0"
      and "temp_exists s"
  shows "backup_files_stream w s =
     (Inr (), s\<lparr>logged := logged s @ [(INFO, ''Starting File Stream to: '' @ files_remote_dest w),
                                      (INFO, ''File stream completed successfully.'')],
               trace := trace s @ [Popen (tar_cmd_of w), Popen (files_rcat_cmd w)]\<rparr>)"
  using assms by (simp add: files_run Let_def log_exists)

lemma retention_ok_state:
  assumes "listing_ok w ds" and "list_all (purge_ok w) (selected ds)" and "temp_exists s"
  shows "manage_retention w s =
     (Inr (), s\<lparr>logged := logged s @ retention_log ds,
               trace := trace s @ Run lsjson_cmd # map (\<lambda>n. Run (purge_cmd n)) (selected ds)\<rparr>)"
proof (cases "MAX_BACKUPS < length (backup_names ds)")
  case True
  let ?s3 = "(log ''Checking retention policy...'' INFO s)
                \<lparr>trace := trace (ensure_temp_dir s) @ [Run lsjson_cmd],
                 logged := logged s @ [(INFO, ''Checking retention policy...''),
                    (INFO, ''Found '' @ str_nat (length (backup_names ds)) @ '' backup folders.'')]\<rparr>"
  let ?s4 = "?s3\<lparr>logged := logged ?s3 @
                [(INFO, ''Retention exceeded. Deleting '' @ str_nat (excess ds) @ '' old folders.'')]\<rparr>"
  have te: "temp_exists ?s4" by (simp add: temp_exists_log)
  have ok: "list_all (purge_ok w) (map name_of (take (excess ds) (sorted_backup_dirs ds)))"
    unfolding selected_names by (rule assms(2))
  have "manage_retention w s = purge_loop w (take (excess ds) (sorted_backup_dirs ds)) ?s4"
    using True by (simp add: retention_run[OF assms(1)] Let_def)
  also have "\<dots> = (Inr (), ?s4\<lparr>logged := logged ?s4 @ map (\<lambda>n. (INFO, ''Purging old backup folder: '' @ n)) (selected ds),
               trace := trace ?s4 @ map (\<lambda>n. Run (purge_cmd n)) (selected ds)\<rparr>)"
    unfolding purge_loop_ok[OF te ok] selected_names by (rule refl)
  also have "\<dots> = (Inr (), s\<lparr>logged := logged s @ retention_log ds,
               trace := trace s @ Run lsjson_cmd # map (\<lambda>n. Run (purge_cmd n)) (selected ds)\<rparr>)"
    using True assms(3) by (simp add: retention_log_def log_exists ensure_temp_dir_exists)
  finally show ?thesis .
next
  case False
  then show ?thesis
    using assms(3)
    by (simp add: retention_run[OF assms(1)] Let_def retention_log_def log_exists
          ensure_temp_dir_exists selected_nil)
qed


lemma all_targets_exist:
  assumes "list_all (path_exists w) (map snd BACKUP_TARGETS)"
  shows "missing_targets w = []" and "existing_targets w = map snd BACKUP_TARGETS"
    and "existing_targets w \<noteq> []"
proof -
  from assms show m: "missing_targets w = []"
    by (auto simp: missing_targets_def list_all_iff filter_empty_conv)
  from assms show e: "existing_targets w = map snd BACKUP_TARGETS"
    unfolding existing_targets_def list_all_iff by (simp only: filter_id_conv)
  show "existing_targets w \<noteq> []"
    unfolding e by (simp add: BACKUP_TARGETS_def)
qed

lemma successful_run:
  assumes targets: "list_all (path_exists w) (map snd BACKUP_TARGETS)"
      and dump: "returncode (proc w dump_cmd) = 0"
      and dbup: "returncode (proc w (db_rcat_cmd w)) = 0"
      and tar: "returncode (proc w (tar_cmd_of w)) = 0"
      and fup: "returncode (proc w (files_rcat_cmd w)) = 0"
      and listing: "listing_ok w ds"
      and purges: "list_all (purge_ok w) (selected ds)"
  shows "run_result w s = Inr ()"
    and "trace (perform_backup w s) =
           trace (ensure_temp_dir s) @
           [Run (mkdir_cmd w), Popen dump_cmd, Popen gzip_cmd, Popen (db_rcat_cmd w),
            Popen (tar_cmd_of w), Popen (files_rcat_cmd w), Run lsjson_cmd] @
           map (\<lambda>n. Run (purge_cmd n)) (selected ds) @
           [Run (log_copy_cmd w), Rmtree TEMP_DIR]"
    and "logged (perform_backup w s) =
           logged s @
           (INFO, ''Backup job started. ID: '' @ timestamp w) # mkdir_log w @
           [(INFO, ''Starting Database Stream to: '' @ db_remote_dest w),
            (INFO, ''Database stream completed successfully.''),
            (INFO, ''Starting File Stream to: '' @ files_remote_dest w),
            (INFO, ''File stream completed successfully.'')] @
           retention_log ds @
           [(INFO, ''Backup finished. Uploading logs and cleaning up.'')]"
proof -
  let ?s1 = "db_start_state w s"
  let ?s2 = "?s1\<lparr>logged := logged ?s1 @ [(INFO, ''Starting Database Stream to: '' @ db_remote_dest w),
                                      (INFO, ''Database stream completed successfully.'')],
               trace := trace ?s1 @ [Popen dump_cmd, Popen gzip_cmd, Popen (db_rcat_cmd w)]\<rparr>"
  let ?s3 = "?s2\<lparr>logged := logged ?s2 @ [(INFO, ''Starting File Stream to: '' @ files_remote_dest w),
                                      (INFO, ''File stream completed successfully.'')],
               trace := trace ?s2 @ [Popen (tar_cmd_of w), Popen (files_rcat_cmd w)]\<rparr>"
  let ?s4 = "?s3\<lparr>logged := logged ?s3 @ retention_log ds,
               trace := trace ?s3 @ Run lsjson_cmd # map (\<lambda>n. Run (purge_cmd n)) (selected ds)\<rparr>"
  have te1: "temp_exists ?s1" by (rule temp_exists_db_start)
  then have te2: "temp_exists ?s2" by simp
  then have te3: "temp_exists ?s3" by simp
  then have te4: "temp_exists ?s4" by simp
  have db: "backup_database_stream w ?s1 = (Inr (), ?s2)"
    by (rule db_ok_state[OF dbup dump te1])
  have fl: "backup_files_stream w ?s2 = (Inr (), ?s3)"
    by (rule files_ok_state[OF all_targets_exist(1)[OF targets] all_targets_exist(3)[OF targets] fup tar te2])
  have rt: "manage_retention w ?s3 = (Inr (), ?s4)"
    by (rule retention_ok_state[OF listing purges te3])
  have tb: "try_body w (start_state w s) = (Inr (), ?s4)"
    unfolding try_body_eq db prod.case sum.case fl rt by (rule refl)
  show rr: "run_result w s = Inr ()"
    unfolding run_result_def tb by simp
  have pb: "perform_backup w s = finally_block w ?s4"
    unfolding perform_backup_eq rr tb by simp
  have trd: "trace ?s1 = trace (ensure_temp_dir s) @ [Run (mkdir_cmd w)]"
    and lgd: "logged ?s1 = logged s @ (INFO, ''Backup job started. ID: '' @ timestamp w) # mkdir_log w"
    by (simp_all add: db_start_state_eq)
  have tr4: "trace ?s4 = trace (ensure_temp_dir s) @
           [Run (mkdir_cmd w), Popen dump_cmd, Popen gzip_cmd, Popen (db_rcat_cmd w),
            Popen (tar_cmd_of w), Popen (files_rcat_cmd w), Run lsjson_cmd] @
           map (\<lambda>n. Run (purge_cmd n)) (selected ds)"
    by (simp add: trd)
  have lg4: "logged ?s4 = logged s @
           (INFO, ''Backup job started. ID: '' @ timestamp w) # mkdir_log w @
           [(INFO, ''Starting Database Stream to: '' @ db_remote_dest w),
            (INFO, ''Database stream completed successfully.''),
            (INFO, ''Starting File Stream to: '' @ files_remote_dest w),
            (INFO, ''File stream completed successfully.'')] @
           retention_log ds"
    by (simp add: lgd)
  show "trace (perform_backup w s) =
           trace (ensure_temp_dir s) @
           [Run (mkdir_cmd w), Popen dump_cmd, Popen gzip_cmd, Popen (db_rcat_cmd w),
            Popen (tar_cmd_of w), Popen (files_rcat_cmd w), Run lsjson_cmd] @
           map (\<lambda>n. Run (purge_cmd n)) (selected ds) @
           [Run (log_copy_cmd w), Rmtree TEMP_DIR]"
    unfolding pb finally_block_trace ensure_temp_dir_exists[OF te4] tr4 by simp
  show "logged (perform_backup w s) =
           logged s @
           (INFO, ''Backup job started. ID: '' @ timestamp w) # mkdir_log w @
           [(INFO, ''Starting Database Stream to: '' @ db_remote_dest w),
            (INFO, ''Database stream completed successfully.''),
            (INFO, ''Starting File Stream to: '' @ files_remote_dest w),
            (INFO, ''File stream completed successfully.'')] @
           retention_log ds @
           [(INFO, ''Backup finished. Uploading logs and cleaning up.'')]"
    unfolding pb finally_block_logged lg4 by simp
qed


lemma own_dir_matches: "startswith (own_dir w) ''backup_''"
  by (simp add: startswith_def own_dir_def)

lemma store_after_prefix:
  assumes "own_dir w \<notin> set pre" and "returncode (proc w (db_rcat_cmd w)) = 0"
  shows "remote_after w pre (run_prefix w) = pre @ [own_dir w]"
  using assms
  by (simp add: remote_after_def run_prefix_def remote_step_def creates_own_dir_def
        mkdir_cmd_def mkdir_args_def dump_cmd_def gzip_cmd_def db_rcat_cmd_def files_rcat_cmd_def
        tar_cmd_of_def tar_base_cmd_def log_copy_cmd_def purge_cmd_def purge_args_def)

lemma count_after_own_dir:
  assumes "sort (map name_of ds) = sort (pre @ [own_dir w])"
      and "length (filter (\<lambda>n. startswith n ''backup_'') pre) = k"
  shows "length (backup_names ds) = Suc k"
proof -
  let ?P = "\<lambda>n. startswith n ''backup_''"
  have "length (backup_names ds) = length (sort (filter ?P (map name_of ds)))"
    by (simp add: backup_names_def)
  also have "\<dots> = length (filter ?P (sort (map name_of ds)))"
    by (simp only: filter_sort)
  also have "\<dots> = length (filter ?P (sort (pre @ [own_dir w])))"
    by (simp only: assms(1))
  also have "\<dots> = length (sort (filter ?P (pre @ [own_dir w])))"
    by (simp only: filter_sort)
  also have "\<dots> = Suc k"
    using assms(2) by (simp add: own_dir_matches)
  finally show ?thesis .
qed

lemma is_purge_simps:
  "\<not> is_purge (Run (mkdir_cmd w))" "\<not> is_purge (Run lsjson_cmd)" "\<not> is_purge (Run (log_copy_cmd w))"
  "is_purge (Run (purge_cmd n))"
  by (simp_all add: mkdir_cmd_def mkdir_args_def lsjson_cmd_def lsjson_args_def log_copy_cmd_def
        purge_cmd_def purge_args_def)

lemma filter_is_purge_map: "filter is_purge (map (\<lambda>n. Run (purge_cmd n)) ns) = map (\<lambda>n. Run (purge_cmd n)) ns"
  by (induction ns) (simp_all add: is_purge_simps del: is_purge.simps(1))

lemma new_events_perform_backup:
  "trace (perform_backup w s) = trace (ensure_temp_dir s) @ es \<Longrightarrow>
   filter is_purge (new_events s (perform_backup w s)) = filter is_purge es"
  by (simp add: new_events_def ensure_temp_dir_def split: if_splits)

text \<open>
  Claim C5 as amended. The retention pass lists the base path after the run has created
  its own directory \<open>backup_<run id>\<close> there (line 207) and uploaded into it. With all
  targets existing, the pipelines and the listing succeeding, the listing showing the
  store as the steps before it leave a store that held the directories \<open>pre\<close>, twenty
  of them matching and none named as the run's own, and the selected purges succeeding:
  the effects of the run are the steps of \<open>run_prefix\<close>, the listing, the purges of exactly
  the 7 smallest of the 21 matching names listed, the upload of the log and the removal
  of the scratch directory; 14 matching names remain; the \<open>try\<close> block ends normally, and
  every line logged after a possible complaint about the directory creation is at level
  INFO.
\<close>

theorem fresh_run_purges_seven:
  assumes "list_all (path_exists w) (map snd BACKUP_TARGETS)"
      and "returncode (proc w dump_cmd) = 0"
      and "returncode (proc w (db_rcat_cmd w)) = 0"
      and "returncode (proc w (tar_cmd_of w)) = 0"
      and "returncode (proc w (files_rcat_cmd w)) = 0"
      and "listing_ok w ds"
      and "sort (map name_of ds) = sort (remote_after w pre (run_prefix w))"
      and "own_dir w \<notin> set pre"
      and "length (filter (\<lambda>n. startswith n ''backup_'') pre) = 20"
      and "list_all (purge_ok w) (selected ds)"
  shows "length (backup_names ds) = 21
       \<and> selected ds = take 7 (backup_names ds)
       \<and> length (selected ds) = 7
       \<and> length (drop 7 (backup_names ds)) = 14
       \<and> new_events (ensure_temp_dir s) (perform_backup w s)
           = run_prefix w @ Run lsjson_cmd
             # map (\<lambda>n. Run (purge_cmd n)) (take 7 (backup_names ds))
             @ [Run (log_copy_cmd w), Rmtree TEMP_DIR]
       \<and> filter is_purge (new_events s (perform_backup w s))
           = map (\<lambda>n. Run (purge_cmd n)) (take 7 (backup_names ds))
       \<and> run_result w s = Inr ()
       \<and> new_entries s (perform_backup w s) =
           (INFO, ''Backup job started. ID: '' @ timestamp w) # mkdir_log w @
           [(INFO, ''Starting Database Stream to: '' @ db_remote_dest w),
            (INFO, ''Database stream completed successfully.''),
            (INFO, ''Starting File Stream to: '' @ files_remote_dest w),
            (INFO, ''File stream completed successfully.'')] @
           retention_log ds @
           [(INFO, ''Backup finished. Uploading logs and cleaning up.'')]"
proof -
  have store: "remote_after w pre (run_prefix w) = pre @ [own_dir w]"
    by (rule store_after_prefix[OF assms(8) assms(3)])
  have names: "sort (map name_of ds) = sort (pre @ [own_dir w])"
    using assms(7) unfolding store .
  have len: "length (backup_names ds) = 21"
    using count_after_own_dir[OF names assms(9)] by simp
  then have sel: "selected ds = take 7 (backup_names ds)"
    by (simp add: selected_def excess_def MAX_BACKUPS_def)
  then have lsel: "length (selected ds) = 7"
    using len by simp
  have rem: "length (drop 7 (backup_names ds)) = 14"
    using len by simp
  note run = successful_run[OF assms(1-6) assms(10), of s]
  have ev: "new_events (ensure_temp_dir s) (perform_backup w s)
           = run_prefix w @ Run lsjson_cmd
             # map (\<lambda>n. Run (purge_cmd n)) (take 7 (backup_names ds))
             @ [Run (log_copy_cmd w), Rmtree TEMP_DIR]"
    by (rule new_events_append) (simp add: run(2) sel run_prefix_def)
  have pg: "filter is_purge (new_events s (perform_backup w s))
           = map (\<lambda>n. Run (purge_cmd n)) (take 7 (backup_names ds))"
    unfolding new_events_perform_backup[OF run(2)]
    by (simp add: is_purge_simps filter_is_purge_map sel del: is_purge.simps(1))
  from len sel lsel rem ev pg run(1) new_entries_append[OF run(3)] show ?thesis by blast
qed

lemma quiet_proc: "returncode (proc quiet_world cmd) = 0"
  by (simp add: quiet_world_def sample_proc ok_result_def)

lemma quiet_own_dir: "own_dir quiet_world = ''backup_20250121_030000''"
  by (simp add: own_dir_def quiet_world_def sample_timestamp)

lemma names20_fresh: "''backup_20250121_030000'' \<notin> set names20"
  by code_simp

lemma quiet_store:
  "remote_after quiet_world names20 (run_prefix quiet_world) = names20 @ [''backup_20250121_030000'']"
proof -
  have "own_dir quiet_world \<notin> set names20"
    unfolding quiet_own_dir by (rule names20_fresh)
  from store_after_prefix[OF this quiet_proc] show ?thesis
    by (simp only: quiet_own_dir)
qed

lemma fresh_run_world_eq:
  "fresh_run_world = sample_world 0 [] (\<lambda>p. True) (names20 @ [''backup_20250121_030000''])"
  unfolding fresh_run_world_def quiet_store by (rule refl)

lemma fresh_run_targets: "list_all (path_exists fresh_run_world) (map snd BACKUP_TARGETS)"
  by (simp add: fresh_run_world_eq sample_path_exists list_all_iff)

lemma fresh_run_proc: "returncode (proc fresh_run_world cmd) = 0"
  by (simp add: fresh_run_world_eq sample_proc ok_result_def)

lemma fresh_run_listing:
  "listing_ok fresh_run_world (map dir_entry (names20 @ [''backup_20250121_030000'']))"
  unfolding fresh_run_world_eq by (rule sample_listing[OF sample_lsjson_ok])

lemma fresh_run_purge_ok: "list_all (purge_ok fresh_run_world) ns"
  by (simp add: list_all_iff fresh_run_world_eq sample_purge_ok)

lemma fresh_run_own_dir: "own_dir fresh_run_world = ''backup_20250121_030000''"
  by (simp add: own_dir_def fresh_run_world_eq sample_timestamp)

lemma fresh_run_store:
  "remote_after fresh_run_world names20 (run_prefix fresh_run_world)
     = names20 @ [''backup_20250121_030000'']"
proof -
  have "own_dir fresh_run_world \<notin> set names20"
    unfolding fresh_run_own_dir by (rule names20_fresh)
  from store_after_prefix[OF this fresh_run_proc] show ?thesis
    by (simp only: fresh_run_own_dir)
qed

lemma fresh_run_decoded:
  "json_loads fresh_run_world (stdout (proc fresh_run_world lsjson_cmd))
     = Inr (JArray (map dir_entry (remote_after fresh_run_world names20 (run_prefix fresh_run_world))))"
  unfolding fresh_run_store by (simp add: fresh_run_world_eq sample_world_def)

lemma fresh_run_sorted:
  "backup_names (map dir_entry (names20 @ [''backup_20250121_030000''])) =
    [''backup_20250101_030000'', ''backup_20250102_030000'', ''backup_20250103_030000'',
     ''backup_20250104_030000'', ''backup_20250105_030000'', ''backup_20250106_030000'',
     ''backup_20250107_030000'', ''backup_20250108_030000'', ''backup_20250109_030000'',
     ''backup_20250110_030000'', ''backup_20250111_030000'', ''backup_20250112_030000'',
     ''backup_20250113_030000'', ''backup_20250114_030000'', ''backup_20250115_030000'',
     ''backup_20250116_030000'', ''backup_20250117_030000'', ''backup_20250118_030000'',
     ''backup_20250119_030000'', ''backup_20250120_030000'', ''backup_20250121_030000'']"
  unfolding sample_backup_names by code_simp

lemma names20_count: "length (backup_names (map dir_entry names20)) = 20"
  unfolding sample_backup_names by code_simp

text \<open>
  Claim C5 says that such a run, started with exactly 20 matching directories under the
  base path, purges exactly the 6 oldest. In \<open>fresh_run_world\<close> all 11 targets exist, every
  process exits 0, the limit is 14 and the 20 directories \<open>names20\<close> exist before the run.
  The run creates its own directory, which is new, before it lists the store; the
  listing decodes to the store as those steps leave it, and the run purges 7.
\<close>

theorem seven_purged_not_six:
  "list_all (path_exists fresh_run_world) (map snd BACKUP_TARGETS)
   \<and> returncode (proc fresh_run_world dump_cmd) = 0
   \<and> returncode (proc fresh_run_world gzip_cmd) = 0
   \<and> returncode (proc fresh_run_world (db_rcat_cmd fresh_run_world)) = 0
   \<and> returncode (proc fresh_run_world (tar_cmd_of fresh_run_world)) = 0
   \<and> returncode (proc fresh_run_world (files_rcat_cmd fresh_run_world)) = 0
   \<and> MAX_BACKUPS = 14
   \<and> length (backup_names (map dir_entry names20)) = 20
   \<and> own_dir fresh_run_world \<notin> set names20
   \<and> json_loads fresh_run_world (stdout (proc fresh_run_world lsjson_cmd))
       = Inr (JArray (map dir_entry
               (remote_after fresh_run_world names20 (run_prefix fresh_run_world))))
   \<and> run_result fresh_run_world (initial_state False) = Inr ()
   \<and> trace (perform_backup fresh_run_world (initial_state False))
       = Makedirs TEMP_DIR # run_prefix fresh_run_world @
         [Run lsjson_cmd,
          Run (purge_cmd ''backup_20250101_030000''), Run (purge_cmd ''backup_20250102_030000''),
          Run (purge_cmd ''backup_20250103_030000''), Run (purge_cmd ''backup_20250104_030000''),
          Run (purge_cmd ''backup_20250105_030000''), Run (purge_cmd ''backup_20250106_030000''),
          Run (purge_cmd ''backup_20250107_030000''),
          Run (log_copy_cmd fresh_run_world), Rmtree TEMP_DIR]
   \<and> length (filter is_purge (trace (perform_backup fresh_run_world (initial_state False)))) = 7"
proof -
  let ?ds = "map dir_entry (names20 @ [''backup_20250121_030000''])"
  have sel: "selected ?ds =
       [''backup_20250101_030000'', ''backup_20250102_030000'', ''backup_20250103_030000'',
        ''backup_20250104_030000'', ''backup_20250105_030000'', ''backup_20250106_030000'',
        ''backup_20250107_030000'']"
    unfolding selected_def excess_def fresh_run_sorted by (simp add: MAX_BACKUPS_def)
  note run = successful_run[OF fresh_run_targets fresh_run_proc fresh_run_proc fresh_run_proc
      fresh_run_proc fresh_run_listing fresh_run_purge_ok, of "initial_state False"]
  have tr: "trace (perform_backup fresh_run_world (initial_state False))
       = Makedirs TEMP_DIR # run_prefix fresh_run_world @
         [Run lsjson_cmd,
          Run (purge_cmd ''backup_20250101_030000''), Run (purge_cmd ''backup_20250102_030000''),
          Run (purge_cmd ''backup_20250103_030000''), Run (purge_cmd ''backup_20250104_030000''),
          Run (purge_cmd ''backup_20250105_030000''), Run (purge_cmd ''backup_20250106_030000''),
          Run (purge_cmd ''backup_20250107_030000''),
          Run (log_copy_cmd fresh_run_world), Rmtree TEMP_DIR]"
    unfolding run(2) sel
    by (simp add: run_prefix_def initial_state_def ensure_temp_dir_def)
  have pg: "length (filter is_purge (trace (perform_backup fresh_run_world (initial_state False)))) = 7"
    unfolding tr run_prefix_def
    by (simp add: is_purge_simps del: is_purge.simps(1))
  have own: "own_dir fresh_run_world \<notin> set names20"
    unfolding fresh_run_own_dir by (rule names20_fresh)
  have mx: "MAX_BACKUPS = 14" by (rule MAX_BACKUPS_def)
  from fresh_run_targets fresh_run_proc mx names20_count own fresh_run_decoded run(1) tr pg
  show ?thesis by blast
qed

theorem fresh_run_purges_seven_witness:
  "listing_ok fresh_run_world (map dir_entry (names20 @ [''backup_20250121_030000'']))
   \<and> remote_after fresh_run_world names20 (run_prefix fresh_run_world)
       = names20 @ [''backup_20250121_030000'']
   \<and> length (backup_names (map dir_entry (names20 @ [''backup_20250121_030000'']))) = 21
   \<and> filter is_purge (new_events (initial_state True) (perform_backup fresh_run_world (initial_state True)))
       = [Run (purge_cmd ''backup_20250101_030000''), Run (purge_cmd ''backup_20250102_030000''),
          Run (purge_cmd ''backup_20250103_030000''), Run (purge_cmd ''backup_20250104_030000''),
          Run (purge_cmd ''backup_20250105_030000''), Run (purge_cmd ''backup_20250106_030000''),
          Run (purge_cmd ''backup_20250107_030000'')]
   \<and> run_result fresh_run_world (initial_state True) = Inr ()"
proof -
  let ?ds = "map dir_entry (names20 @ [''backup_20250121_030000''])"
  have names: "sort (map name_of ?ds)
                 = sort (remote_after fresh_run_world names20 (run_prefix fresh_run_world))"
    unfolding fresh_run_store by (simp add: comp_def name_of_dir_entry)
  have own: "own_dir fresh_run_world \<notin> set names20"
    unfolding fresh_run_own_dir by (rule names20_fresh)
  have cnt: "length (filter (\<lambda>n. startswith n ''backup_'') names20) = 20"
    using names20_count by (simp add: sample_backup_names)
  note t = fresh_run_purges_seven[OF fresh_run_targets fresh_run_proc fresh_run_proc fresh_run_proc
      fresh_run_proc fresh_run_listing names own cnt fresh_run_purge_ok, of "initial_state True"]
  from t[unfolded fresh_run_sorted] fresh_run_listing fresh_run_store show ?thesis
    unfolding fresh_run_sorted by simp
qed

end
